theory Spec2Isabelle
  imports Main "HOL-Library.Word"
begin

unbundle bit_operations_syntax

section \<open>JavaScript values used by the exporters\<close>

text \<open>
  A JavaScript number is an IEEE 754 binary64 value; it is modelled by its 64-bit
  pattern (sign bit 63, exponent bits 62..52, fraction bits 51..0), which is also what
  \<^verbatim>\<open>DataView.setFloat64\<close> writes. Comparisons follow IEEE 754: every comparison with a
  NaN is false, and the two zeros compare equal.
\<close>

type_synonym float64 = "64 word"
type_synonym byte = "8 word"

definition f64_magnitude :: "float64 \<Rightarrow> int" where
  "f64_magnitude w = uint (w AND 0x7FFFFFFFFFFFFFFF)"

definition isNaN :: "float64 \<Rightarrow> bool" where
  "isNaN w \<longleftrightarrow> 0x7FF0000000000000 < f64_magnitude w"

definition f64_key :: "float64 \<Rightarrow> int" where
  "f64_key w = (if bit w 63 then - f64_magnitude w else f64_magnitude w)"

definition js_lt :: "float64 \<Rightarrow> float64 \<Rightarrow> bool" where
  "js_lt a b \<longleftrightarrow> \<not> isNaN a \<and> \<not> isNaN b \<and> f64_key a < f64_key b"

definition js_gt :: "float64 \<Rightarrow> float64 \<Rightarrow> bool" where
  "js_gt a b \<longleftrightarrow> js_lt b a"

definition js_le :: "float64 \<Rightarrow> float64 \<Rightarrow> bool" where
  "js_le a b \<longleftrightarrow> \<not> isNaN a \<and> \<not> isNaN b \<and> f64_key a \<le> f64_key b"

definition Infinity :: float64 where
  "Infinity = 0x7FF0000000000000"

definition NegInfinity :: float64 where
  "NegInfinity = 0xFFF0000000000000"

definition NaN :: float64 where
  "NaN = 0x7FF8000000000000"

datatype js_error = Error string | TypeError string | RangeError string

definition bindE :: "js_error + 'a \<Rightarrow> ('a \<Rightarrow> js_error + 'b) \<Rightarrow> js_error + 'b" where
  "bindE m f = (case m of Inl e \<Rightarrow> Inl e | Inr x \<Rightarrow> f x)"

record coord =
  lat :: float64
  lng :: float64

text \<open>
  \<^verbatim>\<open>geometry.coordinates\<close> is an array of rings for a POLYGON and an array of polygons
  (arrays of rings) for a MULTIPOLYGON. The database exporter reads it without looking at
  \<^verbatim>\<open>geometry.type\<close>, so the nested arrays are kept as an untyped tree next to the typed
  geometry.
\<close>

datatype node = Coord coord | Arr "node list"

datatype geometry = Polygon "coord list list" | MultiPolygon "coord list list list"

definition ring_node :: "coord list \<Rightarrow> node" where
  "ring_node ring = Arr (map Coord ring)"

fun coordinates :: "geometry \<Rightarrow> node list" where
  "coordinates (Polygon rings) = map ring_node rings"
| "coordinates (MultiPolygon polygons) = map (\<lambda>polygon. Arr (map ring_node polygon)) polygons"

text \<open>
  \<^verbatim>\<open>coord.lng\<close> and \<^verbatim>\<open>coord.lat\<close> where a number is expected: a property an array does
  not have reads as \<^verbatim>\<open>undefined\<close>, which converts to NaN.
\<close>

fun prop_lng :: "node \<Rightarrow> float64" where
  "prop_lng (Coord c) = lng c"
| "prop_lng (Arr xs) = NaN"

fun prop_lat :: "node \<Rightarrow> float64" where
  "prop_lat (Coord c) = lat c"
| "prop_lat (Arr xs) = NaN"

text \<open>\<^verbatim>\<open>ring.forEach\<close>: only an array has it; on any other value the call is a TypeError.\<close>

fun elements :: "node \<Rightarrow> js_error + node list" where
  "elements (Arr xs) = Inr xs"
| "elements (Coord c) = Inl (TypeError ''ring.forEach is not a function'')"

section \<open>ArrayBuffer and DataView\<close>

definition ArrayBuffer :: "nat \<Rightarrow> byte list" where
  "ArrayBuffer n = replicate n 0"

definition le_bytes :: "nat \<Rightarrow> 'a::len word \<Rightarrow> byte list" where
  "le_bytes n w = map (\<lambda>i. ucast (drop_bit (8 * i) w)) [0..<n]"

definition set_bytes :: "nat \<Rightarrow> byte list \<Rightarrow> byte list \<Rightarrow> js_error + byte list" where
  "set_bytes offset bs buf =
     (if offset + length bs \<le> length buf
      then Inr (take offset buf @ bs @ drop (offset + length bs) buf)
      else Inl (RangeError ''Offset is outside the bounds of the DataView''))"

definition setUint8 :: "nat \<Rightarrow> byte \<Rightarrow> byte list \<Rightarrow> js_error + byte list" where
  "setUint8 offset v buf = set_bytes offset [v] buf"

definition setUint32 :: "nat \<Rightarrow> 32 word \<Rightarrow> byte list \<Rightarrow> js_error + byte list" where
  "setUint32 offset v buf = set_bytes offset (le_bytes 4 v) buf"

definition setInt32 :: "nat \<Rightarrow> int \<Rightarrow> byte list \<Rightarrow> js_error + byte list" where
  "setInt32 offset v buf = set_bytes offset (le_bytes 4 (word_of_int v :: 32 word)) buf"

definition setFloat64 :: "nat \<Rightarrow> float64 \<Rightarrow> byte list \<Rightarrow> js_error + byte list" where
  "setFloat64 offset v buf = set_bytes offset (le_bytes 8 v) buf"

section \<open>GeoPackage binary encoder\<close>

record envelope =
  minX :: float64
  maxX :: float64
  minY :: float64
  maxY :: float64

definition createGpbHeader :: "int \<Rightarrow> envelope option \<Rightarrow> js_error + byte list" where
  "createGpbHeader srsId env =
     (let hasEnvelope = (env \<noteq> None);
          envelopeType = (if hasEnvelope then 1 else 0 :: byte);
          flags = push_bit 1 envelopeType OR 0x01;
          headerSize = (if hasEnvelope then 8 + 32 else 8);
          header = ArrayBuffer headerSize
      in bindE (setUint8 0 0x47 header) (\<lambda>v.
         bindE (setUint8 1 0x50 v) (\<lambda>v.
         bindE (setUint8 2 0 v) (\<lambda>v.
         bindE (setUint8 3 flags v) (\<lambda>v.
         bindE (setInt32 4 srsId v) (\<lambda>v.
         (case env of
            None \<Rightarrow> Inr v
          | Some e \<Rightarrow>
              bindE (setFloat64 8 (minX e) v) (\<lambda>v.
              bindE (setFloat64 16 (maxX e) v) (\<lambda>v.
              bindE (setFloat64 24 (minY e) v) (\<lambda>v.
              setFloat64 32 (maxY e) v))))))))))"

definition pointToWkb :: "float64 \<Rightarrow> float64 \<Rightarrow> js_error + byte list" where
  "pointToWkb lng' lat' =
     (let buffer = ArrayBuffer 21
      in bindE (setUint8 0 1 buffer) (\<lambda>v.
         bindE (setUint32 1 1 v) (\<lambda>v.
         bindE (setFloat64 5 lng' v) (\<lambda>v.
         setFloat64 13 lat' v))))"

text \<open>
  \<^verbatim>\<open>ring.length\<close>: \<^verbatim>\<open>undefined\<close> (\<open>None\<close>) on a value that is no array; written as
  an unsigned integer it is 0.
\<close>

fun length_prop :: "node \<Rightarrow> nat option" where
  "length_prop (Arr xs) = Some (length xs)"
| "length_prop (Coord c) = None"

text \<open>The two nested \<^verbatim>\<open>forEach\<close> loops of polygonToWkb thread the view and the offset.\<close>

fun wkb_coords :: "node list \<Rightarrow> byte list \<times> nat \<Rightarrow> js_error + byte list \<times> nat" where
  "wkb_coords [] st = Inr st"
| "wkb_coords (c # cs) (v, offset) =
     bindE (setFloat64 offset (prop_lng c) v) (\<lambda>v.
     bindE (setFloat64 (offset + 8) (prop_lat c) v) (\<lambda>v.
     wkb_coords cs (v, offset + 8 + 8)))"

fun wkb_rings :: "node list \<Rightarrow> byte list \<times> nat \<Rightarrow> js_error + byte list \<times> nat" where
  "wkb_rings [] st = Inr st"
| "wkb_rings (ring # rings) (v, offset) =
     bindE (setUint32 offset (of_nat (case length_prop ring of None \<Rightarrow> 0 | Some n \<Rightarrow> n)) v)
       (\<lambda>v.
     bindE (elements ring) (\<lambda>cs.
     bindE (wkb_coords cs (v, offset + 4)) (\<lambda>st.
     wkb_rings rings st)))"

text \<open>
  \<^verbatim>\<open>totalSize += 4 + ring.length * 16\<close>: with a \<^verbatim>\<open>ring.length\<close> that is
  \<^verbatim>\<open>undefined\<close> the sum becomes NaN (\<open>None\<close>), and \<^verbatim>\<open>new ArrayBuffer(NaN)\<close> has
  length 0.
\<close>

fun wkb_size :: "node list \<Rightarrow> nat option \<Rightarrow> nat option" where
  "wkb_size [] totalSize = totalSize"
| "wkb_size (ring # rings) totalSize =
     wkb_size rings
       (case (totalSize, length_prop ring) of
          (Some t, Some n) \<Rightarrow> Some (t + (4 + n * 16))
        | other \<Rightarrow> None)"

definition polygonToWkb :: "node list \<Rightarrow> js_error + byte list" where
  "polygonToWkb rings =
     (let totalSize = wkb_size rings (Some 9);
          buffer = ArrayBuffer (case totalSize of None \<Rightarrow> 0 | Some n \<Rightarrow> n)
      in bindE (setUint8 0 1 buffer) (\<lambda>v.
         bindE (setUint32 1 3 v) (\<lambda>v.
         bindE (setUint32 5 (of_nat (length rings)) v) (\<lambda>v.
         bindE (wkb_rings rings (v, 9)) (\<lambda>st. Inr (fst st))))))"

definition createPointGpb :: "float64 \<Rightarrow> float64 \<Rightarrow> int \<Rightarrow> js_error + byte list" where
  "createPointGpb lng' lat' srsId =
     (let env = \<lparr>minX = lng', maxX = lng', minY = lat', maxY = lat'\<rparr>
      in bindE (createGpbHeader srsId (Some env)) (\<lambda>header.
         bindE (pointToWkb lng' lat') (\<lambda>wkb. Inr (header @ wkb))))"

text \<open>The envelope loop: four running bounds, updated coordinate by coordinate.\<close>

definition bound_step :: "envelope \<Rightarrow> node \<Rightarrow> envelope" where
  "bound_step e c =
     (let e = (if js_lt (prop_lng c) (minX e) then e\<lparr>minX := prop_lng c\<rparr> else e);
          e = (if js_gt (prop_lng c) (maxX e) then e\<lparr>maxX := prop_lng c\<rparr> else e);
          e = (if js_lt (prop_lat c) (minY e) then e\<lparr>minY := prop_lat c\<rparr> else e);
          e = (if js_gt (prop_lat c) (maxY e) then e\<lparr>maxY := prop_lat c\<rparr> else e)
      in e)"

fun bound_rings :: "node list \<Rightarrow> envelope \<Rightarrow> js_error + envelope" where
  "bound_rings [] e = Inr e"
| "bound_rings (ring # rings) e =
     bindE (elements ring) (\<lambda>cs. bound_rings rings (foldl bound_step e cs))"

definition empty_envelope :: envelope where
  "empty_envelope = \<lparr>minX = Infinity, maxX = NegInfinity, minY = Infinity, maxY = NegInfinity\<rparr>"

definition createPolygonGpb :: "node list \<Rightarrow> int \<Rightarrow> js_error + byte list" where
  "createPolygonGpb rings srsId =
     bindE (bound_rings rings empty_envelope) (\<lambda>env.
     bindE (createGpbHeader srsId (Some env)) (\<lambda>header.
     bindE (polygonToWkb rings) (\<lambda>wkb. Inr (header @ wkb))))"

subsection \<open>The byte layout the format prescribes\<close>

text \<open>
  The layout of the specification, written as a concatenation: the envelope header
  (magic, version, flag byte, srs id, four doubles) and the geometry payload (byte-order
  flag, type code, coordinates). \<open>le_word\<close> reads a little-endian field back.
\<close>

definition le_word :: "byte list \<Rightarrow> 'a::len word" where
  "le_word bs = foldr (\<lambda>b acc. ucast b OR push_bit 8 acc) bs 0"

definition flag_byte :: "nat \<Rightarrow> byte" where
  "flag_byte envelopeType = of_nat (1 + 2 * envelopeType)"

definition gpb_header_layout :: "int \<Rightarrow> envelope option \<Rightarrow> byte list" where
  "gpb_header_layout srsId env =
     [0x47, 0x50, 0, flag_byte (case env of None \<Rightarrow> 0 | Some e \<Rightarrow> 1)]
     @ le_bytes 4 (word_of_int srsId :: 32 word)
     @ (case env of
          None \<Rightarrow> []
        | Some e \<Rightarrow>
            le_bytes 8 (minX e) @ le_bytes 8 (maxX e) @ le_bytes 8 (minY e) @ le_bytes 8 (maxY e))"

definition wkb_point_layout :: "float64 \<Rightarrow> float64 \<Rightarrow> byte list" where
  "wkb_point_layout x y = [1] @ le_bytes 4 (1 :: 32 word) @ le_bytes 8 x @ le_bytes 8 y"

definition xy_bytes :: "coord \<Rightarrow> byte list" where
  "xy_bytes c = le_bytes 8 (lng c) @ le_bytes 8 (lat c)"

definition wkb_ring_layout :: "coord list \<Rightarrow> byte list" where
  "wkb_ring_layout ring = le_bytes 4 (of_nat (length ring) :: 32 word) @ concat (map xy_bytes ring)"

definition wkb_polygon_layout :: "coord list list \<Rightarrow> byte list" where
  "wkb_polygon_layout rings =
     [1] @ le_bytes 4 (3 :: 32 word) @ le_bytes 4 (of_nat (length rings) :: 32 word)
     @ concat (map wkb_ring_layout rings)"

definition header_envelope :: "byte list \<Rightarrow> envelope" where
  "header_envelope gpb =
     \<lparr>minX = le_word (take 8 (drop 8 gpb)), maxX = le_word (take 8 (drop 16 gpb)),
      minY = le_word (take 8 (drop 24 gpb)), maxY = le_word (take 8 (drop 32 gpb))\<rparr>"

definition is_minimum :: "float64 \<Rightarrow> float64 list \<Rightarrow> bool" where
  "is_minimum m xs \<longleftrightarrow> m \<in> set xs \<and> list_all (js_le m) xs"

definition is_maximum :: "float64 \<Rightarrow> float64 list \<Rightarrow> bool" where
  "is_maximum m xs \<longleftrightarrow> m \<in> set xs \<and> list_all (\<lambda>x. js_le x m) xs"

text \<open>The bytes the two loops of polygonToWkb write for any array of arrays.\<close>

definition coord_bytes :: "node \<Rightarrow> byte list" where
  "coord_bytes c = le_bytes 8 (prop_lng c) @ le_bytes 8 (prop_lat c)"

definition ring_bytes :: "node list \<Rightarrow> byte list" where
  "ring_bytes cs = le_bytes 4 (of_nat (length cs) :: 32 word) @ concat (map coord_bytes cs)"

text \<open>One running bound of the envelope loop, on its own.\<close>

definition low_step :: "float64 \<Rightarrow> float64 \<Rightarrow> float64" where
  "low_step m x = (if js_lt x m then x else m)"

definition high_step :: "float64 \<Rightarrow> float64 \<Rightarrow> float64" where
  "high_step m x = (if js_gt x m then x else m)"

section \<open>Parcels and export options\<close>

record parcel =
  id' :: string
  wkt' :: string
  geometry :: geometry
  vertices :: "coord list"

text \<open>
  \<^verbatim>\<open>const { includePolygons = false, includePoints = false } = options\<close>: a property that
  is absent (\<open>None\<close>) reads as false.
\<close>

record export_options =
  includePolygons :: "bool option"
  includePoints :: "bool option"

definition or_false :: "bool option \<Rightarrow> bool" where
  "or_false b = (case b of None \<Rightarrow> False | Some v \<Rightarrow> v)"

section \<open>GeoPackage exporter\<close>

text \<open>
  The exporter hands SQL statements to the sql.js engine. The model keeps what the
  statements insert: the rows of the three registry tables and of the two layer tables
  (\<open>None\<close> while a layer table has not been created). \<open>fid\<close> is assigned by the
  engine (AUTOINCREMENT) and is the position of the row. The parcel id and the blob are
  bound as parameters and stored as they are. The bounding box is interpolated into the
  text of the statement, see \<open>sql_number\<close> below; a statement the engine rejects makes
  \<^verbatim>\<open>db.run\<close> throw, which ends the export. The byte image that \<^verbatim>\<open>db.export()\<close> makes
  of the tables is not part of the model.
\<close>

record srs_row =
  srs_name :: string
  srs_id :: int
  organization :: string
  organization_coordsys_id :: int
  definition' :: string
  srs_description :: string

record contents_row =
  table_name :: string
  data_type :: string
  identifier' :: string
  description :: string
  last_change :: string
  min_x :: float64
  min_y :: float64
  max_x :: float64
  max_y :: float64
  contents_srs_id :: int

record geometry_columns_row =
  gc_table_name :: string
  column_name :: string
  geometry_type_name :: string
  gc_srs_id :: int
  z' :: int
  m' :: int

record polygon_row =
  parcel_id :: string
  geom :: "byte list"

record point_row =
  point_parcel_id :: string
  point_index :: nat
  point_geom :: "byte list"

record database =
  gpkg_spatial_ref_sys :: "srs_row list"
  gpkg_contents :: "contents_row list"
  gpkg_geometry_columns :: "geometry_columns_row list"
  polygons_table :: "polygon_row list option"
  points_table :: "point_row list option"

definition wgs84_row :: srs_row where
  \<open>wgs84_row =
     \<lparr>srs_name = ''WGS 84'', srs_id = 4326, organization = ''EPSG'',
      organization_coordsys_id = 4326,
      definition' = ''GEOGCS["WGS 84",DATUM["WGS_1984",SPHEROID["WGS 84",6378137,298.257223563]],PRIMEM["Greenwich",0],UNIT["degree",0.0174532925199433]]'',
      srs_description = ''WGS 84 geodetic''\<rparr>\<close>

definition core_tables :: database where
  "core_tables =
     \<lparr>gpkg_spatial_ref_sys = [wgs84_row], gpkg_contents = [], gpkg_geometry_columns = [],
      polygons_table = None, points_table = None\<rparr>"

text \<open>
  The polygon loop: per parcel, encode \<^verbatim>\<open>parcel.geometry.coordinates\<close>, insert the row,
  then run the bounds loop over the same arrays.
\<close>

fun insert_polygons ::
  "parcel list \<Rightarrow> polygon_row list \<times> envelope \<Rightarrow> js_error + polygon_row list \<times> envelope" where
  "insert_polygons [] st = Inr st"
| "insert_polygons (p # ps) (rows, e) =
     (let rings = coordinates (geometry p)
      in bindE (createPolygonGpb rings 4326) (\<lambda>gpb.
         bindE (bound_rings rings e) (\<lambda>e.
         insert_polygons ps (rows @ [\<lparr>parcel_id = id' p, geom = gpb\<rparr>], e))))"

text \<open>The point loop: per parcel and vertex, with the index of the vertex in the parcel.\<close>

definition vertex_step :: "envelope \<Rightarrow> coord \<Rightarrow> envelope" where
  "vertex_step e vertex =
     (let e = (if js_lt (lng vertex) (minX e) then e\<lparr>minX := lng vertex\<rparr> else e);
          e = (if js_gt (lng vertex) (maxX e) then e\<lparr>maxX := lng vertex\<rparr> else e);
          e = (if js_lt (lat vertex) (minY e) then e\<lparr>minY := lat vertex\<rparr> else e);
          e = (if js_gt (lat vertex) (maxY e) then e\<lparr>maxY := lat vertex\<rparr> else e)
      in e)"

fun insert_vertices ::
  "string \<Rightarrow> coord list \<Rightarrow> nat \<Rightarrow> point_row list \<times> envelope \<Rightarrow> js_error + point_row list \<times> envelope" where
  "insert_vertices pid [] index st = Inr st"
| "insert_vertices pid (vertex # vs) index (rows, e) =
     bindE (createPointGpb (lng vertex) (lat vertex) 4326) (\<lambda>gpb.
     insert_vertices pid vs (index + 1)
       (rows @ [\<lparr>point_parcel_id = pid, point_index = index + 1, point_geom = gpb\<rparr>],
        vertex_step e vertex))"

fun insert_points ::
  "parcel list \<Rightarrow> point_row list \<times> envelope \<Rightarrow> js_error + point_row list \<times> envelope" where
  "insert_points [] st = Inr st"
| "insert_points (p # ps) st =
     bindE (insert_vertices (id' p) (vertices p) 0 st) (\<lambda>st. insert_points ps st)"

text \<open>
  \<^verbatim>\<open>${minX}\<close> in the template of the statement is the text of the number
  (\<^verbatim>\<open>Number.prototype.toString\<close>), and the engine reads the text as SQL. The text of an
  infinity or of NaN is \<^verbatim>\<open>Infinity\<close>, \<^verbatim>\<open>-Infinity\<close> or \<^verbatim>\<open>NaN\<close>: a name, which
  the engine looks up as a column, and the statement fails with \<^verbatim>\<open>no such column\<close>. The
  text of either zero is \<^verbatim>\<open>0\<close>, so a negative zero is stored as zero. The text of any
  other number is a decimal literal that denotes the number, and the column (of type
  DOUBLE) keeps it.
\<close>

definition isFinite :: "float64 \<Rightarrow> bool" where
  "isFinite x \<longleftrightarrow> f64_magnitude x < 0x7FF0000000000000"

definition sql_number :: "float64 \<Rightarrow> js_error + float64" where
  "sql_number x =
     (if isNaN x then Inl (Error ''no such column: NaN'')
      else if \<not> isFinite x then Inl (Error ''no such column: Infinity'')
      else if f64_magnitude x = 0 then Inr 0
      else Inr x)"

text \<open>
  \<^verbatim>\<open>INSERT INTO gpkg_contents VALUES (..., '${timestamp}', ${minX}, ${minY}, ${maxX},
  ${maxY}, 4326)\<close>: the engine resolves the four values from left to right and reports the
  first it cannot resolve. The timestamp is an ISO 8601 text, which holds no quote, so
  between the quotes of the statement it denotes itself.
\<close>

definition insert_contents ::
  "string \<Rightarrow> string \<Rightarrow> string \<Rightarrow> envelope \<Rightarrow> database \<Rightarrow> js_error + database" where
  "insert_contents table title timestamp e db =
     bindE (sql_number (minX e)) (\<lambda>x0.
     bindE (sql_number (minY e)) (\<lambda>y0.
     bindE (sql_number (maxX e)) (\<lambda>x1.
     bindE (sql_number (maxY e)) (\<lambda>y1.
       Inr (db\<lparr>gpkg_contents := gpkg_contents db @
              [\<lparr>table_name = table, data_type = ''features'', identifier' = table,
                description = title, last_change = timestamp,
                min_x = x0, min_y = y0, max_x = x1, max_y = y1,
                contents_srs_id = 4326\<rparr>]\<rparr>)))))"

definition insert_geometry_column :: "string \<Rightarrow> string \<Rightarrow> database \<Rightarrow> database" where
  "insert_geometry_column table kind db =
     db\<lparr>gpkg_geometry_columns := gpkg_geometry_columns db @
          [\<lparr>gc_table_name = table, column_name = ''geom'', geometry_type_name = kind,
            gc_srs_id = 4326, z' = 0, m' = 0\<rparr>]\<rparr>"

text \<open>
  A layer: create the table, insert the rows while the bounds are accumulated, then
  register the layer in \<open>gpkg_contents\<close> and in \<open>gpkg_geometry_columns\<close>. With no
  coordinate seen the bounds are still Infinity and -Infinity, and the registration
  fails.
\<close>

definition add_polygons_layer :: "string \<Rightarrow> parcel list \<Rightarrow> database \<Rightarrow> js_error + database" where
  "add_polygons_layer timestamp parcels db =
     bindE (insert_polygons parcels ([], empty_envelope)) (\<lambda>(rows, e).
     bindE (insert_contents ''polygons'' (''Obrysy dzia'' @ [CHR 0xC5, CHR 0x82] @ ''ek'')
              timestamp e (db\<lparr>polygons_table := Some rows\<rparr>)) (\<lambda>db.
       Inr (insert_geometry_column ''polygons'' ''POLYGON'' db)))"

definition add_points_layer :: "string \<Rightarrow> parcel list \<Rightarrow> database \<Rightarrow> js_error + database" where
  "add_points_layer timestamp parcels db =
     bindE (insert_points parcels ([], empty_envelope)) (\<lambda>(rows, e).
     bindE (insert_contents ''points''
              (''Punkty graniczne dzia'' @ [CHR 0xC5, CHR 0x82] @ ''ek'')
              timestamp e (db\<lparr>points_table := Some rows\<rparr>)) (\<lambda>db.
       Inr (insert_geometry_column ''points'' ''POINT'' db)))"

text \<open>\<open>timestamp\<close> is what \<^verbatim>\<open>new Date().toISOString()\<close> returned in this call.\<close>

definition generateGpkgWithLayers ::
  "string \<Rightarrow> parcel list \<Rightarrow> export_options \<Rightarrow> js_error + database" where
  "generateGpkgWithLayers timestamp parcels options =
     (let db = core_tables
      in bindE (if or_false (includePolygons options)
                then add_polygons_layer timestamp parcels db else Inr db) (\<lambda>db.
         if or_false (includePoints options)
         then add_points_layer timestamp parcels db else Inr db))"

text \<open>
  A parcel whose geometry is a MULTIPOLYGON with one sub-polygon, the closed triangle
  (lat 2, lng 2), (2, 3), (3, 3).
\<close>

definition multipolygon_parcel :: parcel where
  "multipolygon_parcel =
     \<lparr>id' = ''141201_1.0001.6509'', wkt' = [],
      geometry = MultiPolygon
        [[[\<lparr>lat = 0x4000000000000000, lng = 0x4000000000000000\<rparr>,
           \<lparr>lat = 0x4000000000000000, lng = 0x4008000000000000\<rparr>,
           \<lparr>lat = 0x4008000000000000, lng = 0x4008000000000000\<rparr>,
           \<lparr>lat = 0x4000000000000000, lng = 0x4000000000000000\<rparr>]]],
      vertices = [\<lparr>lat = 0x4000000000000000, lng = 0x4000000000000000\<rparr>,
           \<lparr>lat = 0x4000000000000000, lng = 0x4008000000000000\<rparr>,
           \<lparr>lat = 0x4008000000000000, lng = 0x4008000000000000\<rparr>]\<rparr>"

text \<open>A POLYGON parcel: the unit square, closed, with its four corners as vertices.\<close>

definition square_parcel :: parcel where
  "square_parcel =
     \<lparr>id' = ''141201_1.0001.6510'', wkt' = [],
      geometry = Polygon
        [[\<lparr>lat = 0, lng = 0\<rparr>, \<lparr>lat = 0, lng = 0x3FF0000000000000\<rparr>,
          \<lparr>lat = 0x3FF0000000000000, lng = 0x3FF0000000000000\<rparr>,
          \<lparr>lat = 0x3FF0000000000000, lng = 0\<rparr>, \<lparr>lat = 0, lng = 0\<rparr>]],
      vertices = [\<lparr>lat = 0, lng = 0\<rparr>, \<lparr>lat = 0, lng = 0x3FF0000000000000\<rparr>,
          \<lparr>lat = 0x3FF0000000000000, lng = 0x3FF0000000000000\<rparr>,
          \<lparr>lat = 0x3FF0000000000000, lng = 0\<rparr>]\<rparr>"

text \<open>The rings of a POLYGON geometry.\<close>

fun polygon_rings :: "geometry \<Rightarrow> coord list list" where
  "polygon_rings (Polygon rings) = rings"
| "polygon_rings (MultiPolygon polygons) = []"

fun is_Polygon :: "geometry \<Rightarrow> bool" where
  "is_Polygon (Polygon rings) = True"
| "is_Polygon (MultiPolygon polygons) = False"

section \<open>Vertex extraction\<close>

subsection \<open>Number.prototype.toFixed(8)\<close>

text \<open>
  The exact value of a finite double is \<open>mantissa * 2 ^ exponent\<close>. \<^verbatim>\<open>toFixed(8)\<close>
  (ECMA-262, Number.prototype.toFixed) returns the text of the number itself when it is
  not finite, the sign and the text of the absolute value when that is at least 10^21,
  and otherwise the sign and the integer n nearest to \<open>x * 10^8\<close> (the larger one of
  two) printed with a point before its last eight digits. \<open>toString\<close> is
  Number.prototype.toString, called only on values of at least 10^21.
\<close>

definition f64_exponent :: "float64 \<Rightarrow> int" where
  "f64_exponent w = uint (drop_bit 52 w AND 0x7FF)"

definition f64_fraction :: "float64 \<Rightarrow> int" where
  "f64_fraction w = uint (w AND 0xFFFFFFFFFFFFF)"

definition f64_mantissa :: "float64 \<Rightarrow> int" where
  "f64_mantissa w = (if f64_exponent w = 0 then f64_fraction w else 2 ^ 52 + f64_fraction w)"

definition f64_scale :: "float64 \<Rightarrow> int" where
  "f64_scale w = (if f64_exponent w = 0 then - 1074 else f64_exponent w - 1075)"

definition f64_negative :: "float64 \<Rightarrow> bool" where
  "f64_negative w \<longleftrightarrow> js_lt w 0"

function decimal :: "int \<Rightarrow> string" where
  "decimal n =
     (if n < 10 then [''0123456789'' ! nat n]
      else decimal (n div 10) @ [''0123456789'' ! nat (n mod 10)])"
  by pat_completeness auto
termination
  by (relation "measure nat") auto

definition fixed_digits :: "nat \<Rightarrow> int \<Rightarrow> string" where
  "fixed_digits f n =
     (let m = decimal n;
          k = length m;
          m = (if k \<le> f then replicate (f + 1 - k) CHR ''0'' @ m else m);
          k = (if k \<le> f then f + 1 else k)
      in take (k - f) m @ ''.'' @ drop (k - f) m)"

definition round_scaled :: "float64 \<Rightarrow> int" where
  "round_scaled w =
     (let M = f64_mantissa w; E = f64_scale w
      in if 0 \<le> E then M * 2 ^ nat E * 10 ^ 8
         else (2 * M * 10 ^ 8 + 2 ^ nat (- E)) div 2 ^ (nat (- E) + 1))"

definition at_least_1e21 :: "float64 \<Rightarrow> bool" where
  "at_least_1e21 w \<longleftrightarrow> 0 \<le> f64_scale w \<and> 10 ^ 21 \<le> f64_mantissa w * 2 ^ nat (f64_scale w)"

definition toFixed8 :: "(float64 \<Rightarrow> string) \<Rightarrow> float64 \<Rightarrow> string" where
  "toFixed8 toString w =
     (if isNaN w then ''NaN''
      else if w = Infinity then ''Infinity''
      else if w = NegInfinity then ''-Infinity''
      else (if f64_negative w then ''-'' else '''')
           @ (if at_least_1e21 w then toString (w AND 0x7FFFFFFFFFFFFFFF)
              else fixed_digits 8 (round_scaled w)))"

subsection \<open>extractVertices\<close>

definition vertex_key :: "(float64 \<Rightarrow> string) \<Rightarrow> coord \<Rightarrow> string" where
  "vertex_key toString c = toFixed8 toString (lat c) @ '','' @ toFixed8 toString (lng c)"

definition addVertex ::
  "(float64 \<Rightarrow> string) \<Rightarrow> coord list \<times> string set \<Rightarrow> coord \<Rightarrow> coord list \<times> string set" where
  "addVertex toString st c =
     (let key = vertex_key toString c
      in if key \<notin> snd st then (fst st @ [c], insert key (snd st)) else st)"

text \<open>
  \<^verbatim>\<open>polygon[0].slice(0, -1).forEach(addVertex)\<close>: without a first ring, \<^verbatim>\<open>slice\<close> is
  called on \<^verbatim>\<open>undefined\<close>, a TypeError.
\<close>

definition add_outer_ring ::
  "(float64 \<Rightarrow> string) \<Rightarrow> coord list list \<Rightarrow> coord list \<times> string set
     \<Rightarrow> js_error + coord list \<times> string set" where
  "add_outer_ring toString polygon st =
     (case polygon of
        [] \<Rightarrow> Inl (TypeError ''Cannot read properties of undefined (reading slice)'')
      | outerRing # holes \<Rightarrow> Inr (foldl (addVertex toString) st (butlast outerRing)))"

fun add_polygons ::
  "(float64 \<Rightarrow> string) \<Rightarrow> coord list list list \<Rightarrow> coord list \<times> string set
     \<Rightarrow> js_error + coord list \<times> string set" where
  "add_polygons toString [] st = Inr st"
| "add_polygons toString (polygon # polygons) st =
     bindE (add_outer_ring toString polygon st) (add_polygons toString polygons)"

fun extractVertices :: "(float64 \<Rightarrow> string) \<Rightarrow> geometry \<Rightarrow> js_error + coord list" where
  "extractVertices toString (Polygon rings) =
     bindE (add_outer_ring toString rings ([], {})) (\<lambda>st. Inr (fst st))"
| "extractVertices toString (MultiPolygon polygons) =
     bindE (add_polygons toString polygons ([], {})) (\<lambda>st. Inr (fst st))"

subsection \<open>Deduplication as the specification words it\<close>

text \<open>Keep the first element of every key, in the order of the list.\<close>

fun dedup_by :: "('a \<Rightarrow> 'k) \<Rightarrow> 'a list \<Rightarrow> 'a list" where
  "dedup_by key [] = []"
| "dedup_by key (x # xs) = x # dedup_by key (filter (\<lambda>y. key y \<noteq> key x) xs)"

text \<open>
  Deduplication within each sub-polygon and concatenation of the results, and
  deduplication over all sub-polygons together.
\<close>

definition outer_vertices :: "coord list list \<Rightarrow> coord list" where
  "outer_vertices polygon = butlast (hd polygon)"

definition dedup_per_polygon :: "(coord \<Rightarrow> string) \<Rightarrow> coord list list list \<Rightarrow> coord list" where
  "dedup_per_polygon key polygons = concat (map (\<lambda>p. dedup_by key (outer_vertices p)) polygons)"

definition dedup_across_polygons :: "(coord \<Rightarrow> string) \<Rightarrow> coord list list list \<Rightarrow> coord list" where
  "dedup_across_polygons key polygons = dedup_by key (concat (map outer_vertices polygons))"

text \<open>
  Stands for Number.prototype.toString in closed examples: all their numbers are below
  10^21, where \<^verbatim>\<open>toFixed\<close> does not call it.
\<close>

definition no_toString :: "float64 \<Rightarrow> string" where
  "no_toString w = []"

text \<open>
  Two sub-polygons whose outer rings share the vertex (lat 0, lng 1): a triangle
  (0,0), (0,1), (1,1) and a triangle (0,1), (1,2), (2,2), each closed.
\<close>

definition shared_vertex_polygons :: "coord list list list" where
  "shared_vertex_polygons =
     [[[\<lparr>lat = 0, lng = 0\<rparr>, \<lparr>lat = 0, lng = 0x3FF0000000000000\<rparr>,
        \<lparr>lat = 0x3FF0000000000000, lng = 0x3FF0000000000000\<rparr>, \<lparr>lat = 0, lng = 0\<rparr>]],
      [[\<lparr>lat = 0, lng = 0x3FF0000000000000\<rparr>, \<lparr>lat = 0x3FF0000000000000, lng = 0x4000000000000000\<rparr>,
        \<lparr>lat = 0x4000000000000000, lng = 0x4000000000000000\<rparr>, \<lparr>lat = 0, lng = 0x3FF0000000000000\<rparr>]]]"

section \<open>GeoJSON exporter\<close>

text \<open>
  The object handed to \<^verbatim>\<open>JSON.stringify\<close>, with the properties of every object in the
  order of the literal. A number is a double (\<open>JNumber\<close>) or the integer \<^verbatim>\<open>index + 1\<close>
  (\<open>JInteger\<close>).
\<close>

datatype json =
    JNull
  | JNumber float64
  | JInteger nat
  | JString string
  | JArray "json list"
  | JObject "(string \<times> json) list"

definition position :: "coord \<Rightarrow> json" where
  "position c = JArray [JNumber (lng c), JNumber (lat c)]"

fun geometryToGeojson :: "geometry \<Rightarrow> json" where
  "geometryToGeojson (Polygon rings) =
     JObject [(''type'', JString ''Polygon''),
              (''coordinates'', JArray (map (\<lambda>ring. JArray (map position ring)) rings))]"
| "geometryToGeojson (MultiPolygon polygons) =
     JObject [(''type'', JString ''MultiPolygon''),
              (''coordinates'',
               JArray (map (\<lambda>polygon. JArray (map (\<lambda>ring. JArray (map position ring)) polygon))
                 polygons))]"

definition polygon_feature :: "parcel \<Rightarrow> json" where
  "polygon_feature p =
     JObject [(''type'', JString ''Feature''),
              (''properties'',
               JObject [(''parcel_id'', JString (id' p)), (''layer'', JString ''polygons'')]),
              (''geometry'', geometryToGeojson (geometry p))]"

definition point_feature :: "string \<Rightarrow> nat \<Rightarrow> coord \<Rightarrow> json" where
  "point_feature pid index vertex =
     JObject [(''type'', JString ''Feature''),
              (''properties'',
               JObject [(''parcel_id'', JString pid), (''point_index'', JInteger (index + 1)),
                        (''layer'', JString ''points'')]),
              (''geometry'',
               JObject [(''type'', JString ''Point''),
                        (''coordinates'', JArray [JNumber (lng vertex), JNumber (lat vertex)])])]"

text \<open>The \<^verbatim>\<open>forEach\<close> loops push onto the array \<open>features\<close>.\<close>

fun push_polygon_features :: "parcel list \<Rightarrow> json list \<Rightarrow> json list" where
  "push_polygon_features [] features = features"
| "push_polygon_features (p # ps) features =
     push_polygon_features ps (features @ [polygon_feature p])"

fun push_vertex_features :: "string \<Rightarrow> coord list \<Rightarrow> nat \<Rightarrow> json list \<Rightarrow> json list" where
  "push_vertex_features pid [] index features = features"
| "push_vertex_features pid (vertex # vs) index features =
     push_vertex_features pid vs (index + 1) (features @ [point_feature pid index vertex])"

fun push_point_features :: "parcel list \<Rightarrow> json list \<Rightarrow> json list" where
  "push_point_features [] features = features"
| "push_point_features (p # ps) features =
     push_point_features ps (push_vertex_features (id' p) (vertices p) 0 features)"

definition geojson_features :: "parcel list \<Rightarrow> export_options \<Rightarrow> json list" where
  "geojson_features parcels options =
     (let features = [];
          features = (if or_false (includePolygons options)
                      then push_polygon_features parcels features else features);
          features = (if or_false (includePoints options)
                      then push_point_features parcels features else features)
      in features)"

text \<open>\<open>stringify\<close> is \<^verbatim>\<open>JSON.stringify(value, null, 2)\<close>.\<close>

definition generateGeojsonWithLayers ::
  "(json \<Rightarrow> string) \<Rightarrow> parcel list \<Rightarrow> export_options \<Rightarrow> string" where
  "generateGeojsonWithLayers stringify parcels options =
     stringify (JObject [(''type'', JString ''FeatureCollection''),
                         (''features'', JArray (geojson_features parcels options))])"

subsection \<open>Reading a feature\<close>

fun member_of :: "string \<Rightarrow> json \<Rightarrow> json" where
  "member_of name (JObject ms) = (case map_of ms name of None \<Rightarrow> JNull | Some v \<Rightarrow> v)"
| "member_of name other = JNull"

definition layer_of :: "json \<Rightarrow> json" where
  "layer_of feature = member_of ''layer'' (member_of ''properties'' feature)"

text \<open>The point features of one parcel, numbered from 1.\<close>

definition parcel_point_features :: "parcel \<Rightarrow> json list" where
  "parcel_point_features p =
     map (\<lambda>(index, vertex). point_feature (id' p) index vertex) (enumerate 0 (vertices p))"

section \<open>KML exporter\<close>

text \<open>
  Strings are lists of bytes: the templates of the source are written out line by line,
  a line feed as \<open>CHR 0x0A\<close> and a letter outside ASCII as its UTF-8 bytes.
  \<open>toString\<close> is Number.prototype.toString (the text of a double in a template),
  \<open>decimal\<close> prints the integers \<^verbatim>\<open>parcels.length\<close> and \<^verbatim>\<open>index + 1\<close>.
\<close>

text \<open>\<^verbatim>\<open>str.replace(/c/g, r)\<close> for a single character \<open>c\<close>.\<close>

definition replace_all :: "char \<Rightarrow> string \<Rightarrow> string \<Rightarrow> string" where
  "replace_all c r str = concat (map (\<lambda>x. if x = c then r else [x]) str)"

definition escapeXml :: "string \<Rightarrow> string" where
  \<open>escapeXml str =
     (if str = [] then []
      else replace_all (CHR 0x27) ''&apos;''
             (replace_all (CHR 0x22) ''&quot;''
               (replace_all CHR ''>'' ''&gt;''
                 (replace_all CHR ''<'' ''&lt;''
                   (replace_all CHR ''&'' ''&amp;'' str)))))\<close>

text \<open>\<^verbatim>\<open>array.join(separator)\<close> on an array of strings.\<close>

fun join :: "string \<Rightarrow> string list \<Rightarrow> string" where
  "join separator [] = []"
| "join separator [x] = x"
| "join separator (x # y # ys) = x @ separator @ join separator (y # ys)"

definition formatRing :: "(float64 \<Rightarrow> string) \<Rightarrow> coord list \<Rightarrow> string" where
  "formatRing toString ring =
     join '' '' (map (\<lambda>coord. toString (lng coord) @ '','' @ toString (lat coord) @ '',0'') ring)"

text \<open>
  \<^verbatim>\<open>const [outerRing, ...innerRings] = rings\<close>: without a first ring \<^verbatim>\<open>outerRing\<close> is
  \<^verbatim>\<open>undefined\<close> and the template prints that word.
\<close>

definition inner_boundary :: "string \<Rightarrow> string" where
  \<open>inner_boundary ring =
     [CHR 0x0A] @ ''        <innerBoundaryIs>'' @ [CHR 0x0A] @ ''          <LinearRing>'' @
     [CHR 0x0A] @ ''            <coordinates>'' @ ring @ ''</coordinates>'' @ [CHR 0x0A] @
     ''          </LinearRing>'' @ [CHR 0x0A] @ ''        </innerBoundaryIs>''\<close>

definition generatePolygonKml :: "string list \<Rightarrow> string" where
  \<open>generatePolygonKml rings =
     (let outerRing = (case rings of [] \<Rightarrow> ''undefined'' | r # rs \<Rightarrow> r);
          innerRings = tl rings
      in (
     ''<Polygon>'' @ [CHR 0x0A] @ ''        <outerBoundaryIs>'' @ [CHR 0x0A] @
     ''          <LinearRing>'' @ [CHR 0x0A] @ ''            <coordinates>'' @ outerRing @
     ''</coordinates>'' @ [CHR 0x0A] @ ''          </LinearRing>'' @ [CHR 0x0A] @
     ''        </outerBoundaryIs>'')
     @ concat (map inner_boundary innerRings)
     @ (
     [CHR 0x0A] @ ''      </Polygon>''))\<close>

definition generateMultiPolygonKml :: "string list list \<Rightarrow> string" where
  \<open>generateMultiPolygonKml polygons =
     ''<MultiGeometry>'' @ concat (map generatePolygonKml polygons) @ ''</MultiGeometry>''\<close>

text \<open>
  formatCoordinatesForKml followed by generateGeometryKml: both dispatch on
  \<^verbatim>\<open>geometry.type\<close>, the first formats every ring, the second wraps the result.
\<close>

fun generateGeometryKml :: "(float64 \<Rightarrow> string) \<Rightarrow> geometry \<Rightarrow> string" where
  "generateGeometryKml toString (Polygon rings) =
     generatePolygonKml (map (formatRing toString) rings)"
| "generateGeometryKml toString (MultiPolygon polygons) =
     generateMultiPolygonKml (map (map (formatRing toString)) polygons)"

definition polygon_placemark :: "(float64 \<Rightarrow> string) \<Rightarrow> parcel \<Rightarrow> string" where
  \<open>polygon_placemark toString parcel =
     [CHR 0x0A] @ ''      <Placemark>'' @ [CHR 0x0A] @ ''        <name>'' @
     escapeXml (id' parcel) @ ''</name>'' @ [CHR 0x0A] @ ''        <description>Dzia'' @
     [CHR 0xC5, CHR 0x82] @ ''ka ewidencyjna: '' @ escapeXml (id' parcel) @
     ''</description>'' @ [CHR 0x0A] @ ''        <styleUrl>#parcelStyle</styleUrl>'' @
     [CHR 0x0A] @ ''        '' @ generateGeometryKml toString (geometry parcel) @
     [CHR 0x0A] @ ''      </Placemark>''\<close>

definition point_placemark :: "(float64 \<Rightarrow> string) \<Rightarrow> parcel \<Rightarrow> nat \<Rightarrow> coord \<Rightarrow> string" where
  \<open>point_placemark toString parcel index point =
     [CHR 0x0A] @ ''      <Placemark>'' @ [CHR 0x0A] @ ''        <name>'' @
     escapeXml (id' parcel) @ '' - Pkt '' @ decimal (int (index + 1)) @ ''</name>'' @
     [CHR 0x0A] @ ''        <description>Dzia'' @ [CHR 0xC5, CHR 0x82] @ ''ka: '' @
     escapeXml (id' parcel) @ '', Punkt '' @ decimal (int (index + 1)) @
     ''</description>'' @ [CHR 0x0A] @ ''        <styleUrl>#pointStyle</styleUrl>'' @
     [CHR 0x0A] @ ''        <Point>'' @ [CHR 0x0A] @ ''          <coordinates>'' @
     toString (lng point) @ '','' @ toString (lat point) @ '',0</coordinates>'' @
     [CHR 0x0A] @ ''        </Point>'' @ [CHR 0x0A] @ ''      </Placemark>''\<close>

definition polygons_folder :: "(float64 \<Rightarrow> string) \<Rightarrow> parcel list \<Rightarrow> string" where
  \<open>polygons_folder toString parcels =
     (let parcelCount = decimal (int (length parcels));
          polygonPlacemarks = concat (map (polygon_placemark toString) parcels)
      in
     [CHR 0x0A] @ ''    <Folder>'' @ [CHR 0x0A] @ ''      <name>Obrysy dzia'' @
     [CHR 0xC5, CHR 0x82] @ ''ek</name>'' @ [CHR 0x0A] @ ''      <description>Obrysy '' @
     parcelCount @ '' dzia'' @ [CHR 0xC5, CHR 0x82] @ ''ek</description>'' @
     polygonPlacemarks @ [CHR 0x0A] @ ''    </Folder>'')\<close>

definition points_folder :: "(float64 \<Rightarrow> string) \<Rightarrow> parcel list \<Rightarrow> string" where
  \<open>points_folder toString parcels =
     (let parcelCount = decimal (int (length parcels));
          pointPlacemarks =
            concat (concat (map (\<lambda>parcel.
              map (\<lambda>(index, point). point_placemark toString parcel index point)
                (enumerate 0 (vertices parcel))) parcels))
      in
     [CHR 0x0A] @ ''    <Folder>'' @ [CHR 0x0A] @ ''      <name>Punkty graniczne</name>'' @
     [CHR 0x0A] @ ''      <description>Punkty graniczne '' @ parcelCount @ '' dzia'' @
     [CHR 0xC5, CHR 0x82] @ ''ek</description>'' @ pointPlacemarks @ [CHR 0x0A] @
     ''    </Folder>'')\<close>

text \<open>
  The template of the document, cut at \<^verbatim>\<open>${timestamp}\<close>: the text before it and the
  text after it.
\<close>

definition kml_head :: "string \<Rightarrow> string" where
  \<open>kml_head parcelCount =
     ''<?xml version="1.0" encoding="UTF-8"?>'' @ [CHR 0x0A] @
     ''<kml xmlns="http://www.opengis.net/kml/2.2">'' @ [CHR 0x0A] @ ''  <Document>'' @
     [CHR 0x0A] @ ''    <name>Dzia'' @ [CHR 0xC5, CHR 0x82] @ ''ki ('' @ parcelCount @
     '')</name>'' @ [CHR 0x0A] @ ''    <description>Eksport '' @ parcelCount @ '' dzia'' @
     [CHR 0xC5, CHR 0x82] @ ''ek - wygenerowano: ''\<close>

definition kml_tail :: "string \<Rightarrow> string" where
  \<open>kml_tail folders =
     ''</description>'' @ [CHR 0x0A] @ ''    <Style id="parcelStyle">'' @ [CHR 0x0A] @
     ''      <LineStyle>'' @ [CHR 0x0A] @ ''        <color>ff2828c6</color>'' @
     [CHR 0x0A] @ ''        <width>3</width>'' @ [CHR 0x0A] @ ''      </LineStyle>'' @
     [CHR 0x0A] @ ''      <PolyStyle>'' @ [CHR 0x0A] @
     ''        <color>4d2828c6</color>'' @ [CHR 0x0A] @ ''        <fill>1</fill>'' @
     [CHR 0x0A] @ ''        <outline>1</outline>'' @ [CHR 0x0A] @ ''      </PolyStyle>'' @
     [CHR 0x0A] @ ''    </Style>'' @ [CHR 0x0A] @ ''    <Style id="pointStyle">'' @
     [CHR 0x0A] @ ''      <IconStyle>'' @ [CHR 0x0A] @
     ''        <color>ff0065e6</color>'' @ [CHR 0x0A] @ ''        <scale>0.8</scale>'' @
     [CHR 0x0A] @ ''        <Icon>'' @ [CHR 0x0A] @
     ''          <href>http://maps.google.com/mapfiles/kml/shapes/placemark_circle.png</href>'' @
     [CHR 0x0A] @ ''        </Icon>'' @ [CHR 0x0A] @ ''      </IconStyle>'' @ [CHR 0x0A] @
     ''      <LabelStyle>'' @ [CHR 0x0A] @ ''        <scale>0.7</scale>'' @ [CHR 0x0A] @
     ''      </LabelStyle>'' @ [CHR 0x0A] @ ''    </Style>'' @ folders @ [CHR 0x0A] @
     ''  </Document>'' @ [CHR 0x0A] @ ''</kml>''\<close>

text \<open>\<open>timestamp\<close> is what \<^verbatim>\<open>new Date().toISOString()\<close> returned in this call.\<close>

definition generateKmlWithLayers ::
  "(float64 \<Rightarrow> string) \<Rightarrow> string \<Rightarrow> parcel list \<Rightarrow> export_options \<Rightarrow> string" where
  \<open>generateKmlWithLayers toString timestamp parcels options =
     (let parcelCount = decimal (int (length parcels));
          folders = [];
          folders = (if or_false (includePolygons options)
                     then folders @ polygons_folder toString parcels else folders);
          folders = (if or_false (includePoints options)
                     then folders @ points_folder toString parcels else folders)
      in kml_head parcelCount @ timestamp @ kml_tail folders)\<close>

subsection \<open>Escaping as the specification words it\<close>

text \<open>Each of the five reserved characters becomes its entity, any other one stays.\<close>

definition xml_entity :: "char \<Rightarrow> string" where
  \<open>xml_entity c =
     (if c = CHR ''&'' then ''&amp;''
      else if c = CHR ''<'' then ''&lt;''
      else if c = CHR ''>'' then ''&gt;''
      else if c = CHR 0x22 then ''&quot;''
      else if c = CHR 0x27 then ''&apos;''
      else [c])\<close>

definition reserved :: "char \<Rightarrow> bool" where
  \<open>reserved c \<longleftrightarrow> c = CHR ''<'' \<or> c = CHR ''>'' \<or> c = CHR 0x22 \<or> c = CHR 0x27\<close>

text \<open>
  Character data that needs no further escaping: none of \<open><\<close>, \<open>>\<close>, the two quotes,
  and every \<open>&\<close> begins one of the five entity references.
\<close>

fun xml_text_ok :: "string \<Rightarrow> bool" where
  "xml_text_ok [] = True"
| "xml_text_ok (c # cs) =
     ((if c = CHR ''&''
       then take 4 cs = ''amp;'' \<or> take 3 cs = ''lt;'' \<or> take 3 cs = ''gt;''
            \<or> take 5 cs = ''quot;'' \<or> take 5 cs = ''apos;''
       else \<not> reserved c)
      \<and> xml_text_ok cs)"

text \<open>\<open>contains needle text\<close>: the needle occurs in the text.\<close>

fun contains :: "string \<Rightarrow> string \<Rightarrow> bool" where
  "contains needle [] = (needle = [])"
| "contains needle (c # cs) =
     (if take (length needle) (c # cs) = needle then True else contains needle cs)"

section \<open>WKT decoder\<close>

text \<open>
  The text is ASCII, as the ULDK service returns it: of the white space and the letter
  cases of JavaScript only the ASCII characters are modelled. Every regular expression
  of the source is written as the function that matches it. White space is disjoint from
  the fixed characters that follow it, so a greedy \<^verbatim>\<open>\s*\<close> never gives a character back;
  only the greedy group \<^verbatim>\<open>(.+)\<close> is searched for its longest match.
  \<open>toNumber\<close> is the builtin \<^verbatim>\<open>Number\<close> on a string and \<open>toWGS84\<close> the projection
  (it may throw, and it receives \<^verbatim>\<open>undefined\<close> as \<open>None\<close>).
\<close>

datatype js_value = WktString string | NotAString

datatype GeometryType = POLYGON | MULTIPOLYGON

definition isSpace :: "char \<Rightarrow> bool" where
  "isSpace c \<longleftrightarrow> c \<in> set [CHR 0x09, CHR 0x0A, CHR 0x0B, CHR 0x0C, CHR 0x0D, CHR '' '']"

definition isLineTerminator :: "char \<Rightarrow> bool" where
  "isLineTerminator c \<longleftrightarrow> c = CHR 0x0A \<or> c = CHR 0x0D"

definition isDigit :: "char \<Rightarrow> bool" where
  "isDigit c \<longleftrightarrow> c \<in> set ''0123456789''"

definition upper :: "char \<Rightarrow> char" where
  "upper c =
     (if c \<in> set ''abcdefghijklmnopqrstuvwxyz''
      then char_of (of_char c - 32 :: nat) else c)"

definition toUpperCase :: "string \<Rightarrow> string" where
  "toUpperCase s = map upper s"

definition trim :: "string \<Rightarrow> string" where
  "trim s = rev (dropWhile isSpace (rev (dropWhile isSpace s)))"

definition startsWith :: "string \<Rightarrow> string \<Rightarrow> bool" where
  "startsWith s p \<longleftrightarrow> take (length p) s = p"

text \<open>\<^verbatim>\<open>/^SRID=\d+;/i\<close> at the start of the text: what follows the match.\<close>

definition match_srid :: "string \<Rightarrow> string option" where
  "match_srid wkt =
     (if toUpperCase (take 5 wkt) = ''SRID=''
      then (let digits = takeWhile isDigit (drop 5 wkt);
                rest = dropWhile isDigit (drop 5 wkt)
            in if digits \<noteq> [] \<and> startsWith rest '';'' then Some (drop 1 rest) else None)
      else None)"

definition removeSridPrefix :: "string \<Rightarrow> string" where
  "removeSridPrefix wkt = trim (case match_srid wkt of None \<Rightarrow> wkt | Some rest \<Rightarrow> rest)"

definition detectGeometryType :: "string \<Rightarrow> js_error + GeometryType" where
  "detectGeometryType wkt =
     (let upperWkt = toUpperCase wkt
      in if startsWith upperWkt ''MULTIPOLYGON'' then Inr MULTIPOLYGON
         else if startsWith upperWkt ''POLYGON'' then Inr POLYGON
         else Inl (Error ''Unknown or unsupported WKT geometry type''))"

text \<open>
  \<^verbatim>\<open>/POLYGON\s*\(\((.+)\)\)/i\<close> and \<^verbatim>\<open>/MULTIPOLYGON\s*\(\(\((.+)\)\)\)/i\<close>: the keyword,
  white space, the opening parentheses, then the group \<^verbatim>\<open>(.+)\<close>, which is greedy: it
  ends at the last position of the line where the closing parentheses follow.
  \<open>last_close\<close> looks for that position from the right.
\<close>

fun last_close :: "string \<Rightarrow> string \<Rightarrow> nat \<Rightarrow> nat option" where
  "last_close closing line 0 = None"
| "last_close closing line (Suc k) =
     (if startsWith (drop (Suc k) line) closing then Some (Suc k)
      else last_close closing line k)"

definition match_group :: "string \<Rightarrow> string \<Rightarrow> string option" where
  "match_group closing text =
     (let line = takeWhile (\<lambda>c. \<not> isLineTerminator c) text
      in map_option (\<lambda>k. take k line) (last_close closing line (length line)))"

definition match_here :: "string \<Rightarrow> string \<Rightarrow> string \<Rightarrow> string \<Rightarrow> string option" where
  "match_here keyword opening closing text =
     (if toUpperCase (take (length keyword) text) = keyword
      then (let rest = dropWhile isSpace (drop (length keyword) text)
            in if startsWith rest opening
               then match_group closing (drop (length opening) rest) else None)
      else None)"

text \<open>\<^verbatim>\<open>wkt.match(regex)\<close>: the first position of the text where the expression matches.\<close>

fun match_first :: "string \<Rightarrow> string \<Rightarrow> string \<Rightarrow> string \<Rightarrow> string option" where
  "match_first keyword opening closing [] = match_here keyword opening closing []"
| "match_first keyword opening closing (c # cs) =
     (case match_here keyword opening closing (c # cs) of
        Some content \<Rightarrow> Some content
      | None \<Rightarrow> match_first keyword opening closing cs)"

text \<open>
  \<^verbatim>\<open>text.split(separator)\<close>: \<open>matcher\<close> gives the length of the separator that begins
  at a position, if one does; no separator of the source matches the empty text.
  \<open>skip\<close> counts the characters of a separator that are still to be passed over.
\<close>

fun split_from :: "(string \<Rightarrow> nat option) \<Rightarrow> nat \<Rightarrow> string \<Rightarrow> string \<Rightarrow> string list" where
  "split_from matcher skip piece [] = [piece]"
| "split_from matcher skip piece (c # cs) =
     (if 0 < skip then split_from matcher (skip - 1) piece cs
      else (case matcher (c # cs) of
              Some n \<Rightarrow> piece # split_from matcher (n - 1) [] cs
            | None \<Rightarrow> split_from matcher 0 (piece @ [c]) cs))"

definition split :: "(string \<Rightarrow> nat option) \<Rightarrow> string \<Rightarrow> string list" where
  "split matcher text = split_from matcher 0 [] text"

text \<open>
  A separator made of fixed characters with white space allowed between them, as
  \<^verbatim>\<open>/\)\s*,\s*\(/\<close>: the length of its match at the start of the text.
\<close>

fun spaced :: "string \<Rightarrow> string \<Rightarrow> nat option" where
  "spaced [] text = Some 0"
| "spaced [p] text = (if startsWith text [p] then Some 1 else None)"
| "spaced (p # q # ps) text =
     (if startsWith text [p]
      then (let spaces = takeWhile isSpace (drop 1 text)
            in map_option (\<lambda>n. 1 + length spaces + n)
                 (spaced (q # ps) (drop (1 + length spaces) text)))
      else None)"

definition ring_separator :: "string \<Rightarrow> nat option" where
  "ring_separator = spaced ''),(''"

definition polygon_separator :: "string \<Rightarrow> nat option" where
  "polygon_separator = spaced '')),((''"

definition comma :: "string \<Rightarrow> nat option" where
  "comma text = (if startsWith text '','' then Some 1 else None)"

definition spaces :: "string \<Rightarrow> nat option" where
  "spaces text = (case takeWhile isSpace text of [] \<Rightarrow> None | c # cs \<Rightarrow> Some (length (c # cs)))"

text \<open>\<^verbatim>\<open>array.map(f)\<close> for an \<open>f\<close> that may throw: the first exception ends the call.\<close>

fun map_throwing :: "('a \<Rightarrow> js_error + 'b) \<Rightarrow> 'a list \<Rightarrow> js_error + 'b list" where
  "map_throwing f [] = Inr []"
| "map_throwing f (x # xs) =
     bindE (f x) (\<lambda>y. bindE (map_throwing f xs) (\<lambda>ys. Inr (y # ys)))"

text \<open>
  \<^verbatim>\<open>const [x, y] = pair.trim().split(/\s+/).map(Number)\<close>: \<open>x\<close> is the first number
  and \<open>y\<close> the second, each \<^verbatim>\<open>undefined\<close> (\<open>None\<close>) when the array is too short.
  \<^verbatim>\<open>Number.isNaN\<close> is false on \<^verbatim>\<open>undefined\<close>.
\<close>

definition pair_numbers :: "(string \<Rightarrow> float64) \<Rightarrow> string \<Rightarrow> float64 list" where
  "pair_numbers toNumber pair = map toNumber (split spaces (trim pair))"

definition pair_x :: "(string \<Rightarrow> float64) \<Rightarrow> string \<Rightarrow> float64 option" where
  "pair_x toNumber pair =
     (case pair_numbers toNumber pair of [] \<Rightarrow> None | x # rest \<Rightarrow> Some x)"

definition pair_y :: "(string \<Rightarrow> float64) \<Rightarrow> string \<Rightarrow> float64 option" where
  "pair_y toNumber pair =
     (case pair_numbers toNumber pair of x # y # rest \<Rightarrow> Some y | other \<Rightarrow> None)"

definition Number_isNaN :: "float64 option \<Rightarrow> bool" where
  "Number_isNaN v = (case v of None \<Rightarrow> False | Some n \<Rightarrow> isNaN n)"

definition parsePair ::
  "(string \<Rightarrow> float64) \<Rightarrow> (float64 option \<Rightarrow> float64 option \<Rightarrow> js_error + coord) \<Rightarrow> string
     \<Rightarrow> js_error + coord" where
  "parsePair toNumber toWGS84 pair =
     (let x = pair_x toNumber pair; y = pair_y toNumber pair
      in if Number_isNaN x \<or> Number_isNaN y
         then Inl (TypeError (''Invalid coordinate pair: '' @ pair))
         else toWGS84 x y)"

definition pair_strings :: "string \<Rightarrow> string list" where
  "pair_strings coordinateString =
     (let cleaned = trim (filter (\<lambda>c. c \<noteq> CHR ''('' \<and> c \<noteq> CHR '')'') coordinateString)
      in split comma cleaned)"

definition parseCoordinatePairs ::
  "(string \<Rightarrow> float64) \<Rightarrow> (float64 option \<Rightarrow> float64 option \<Rightarrow> js_error + coord) \<Rightarrow> string
     \<Rightarrow> js_error + coord list" where
  "parseCoordinatePairs toNumber toWGS84 coordinateString =
     map_throwing (parsePair toNumber toWGS84) (pair_strings coordinateString)"

definition parseRings ::
  "(string \<Rightarrow> float64) \<Rightarrow> (float64 option \<Rightarrow> float64 option \<Rightarrow> js_error + coord) \<Rightarrow> string
     \<Rightarrow> js_error + coord list list" where
  "parseRings toNumber toWGS84 ringContent =
     map_throwing (parseCoordinatePairs toNumber toWGS84) (split ring_separator ringContent)"

definition parsePolygon ::
  "(string \<Rightarrow> float64) \<Rightarrow> (float64 option \<Rightarrow> float64 option \<Rightarrow> js_error + coord) \<Rightarrow> string
     \<Rightarrow> js_error + geometry" where
  "parsePolygon toNumber toWGS84 wkt =
     (case match_first ''POLYGON'' ''(('' ''))'' wkt of
        None \<Rightarrow> Inl (Error ''Invalid POLYGON WKT format'')
      | Some content \<Rightarrow>
          bindE (parseRings toNumber toWGS84 content) (\<lambda>rings. Inr (Polygon rings)))"

definition parseMultiPolygon ::
  "(string \<Rightarrow> float64) \<Rightarrow> (float64 option \<Rightarrow> float64 option \<Rightarrow> js_error + coord) \<Rightarrow> string
     \<Rightarrow> js_error + geometry" where
  "parseMultiPolygon toNumber toWGS84 wkt =
     (case match_first ''MULTIPOLYGON'' ''((('' '')))'' wkt of
        None \<Rightarrow> Inl (Error ''Invalid MULTIPOLYGON WKT format'')
      | Some content \<Rightarrow>
          bindE (map_throwing (parseRings toNumber toWGS84) (split polygon_separator content))
            (\<lambda>polygons. Inr (MultiPolygon polygons)))"

definition parseWkt ::
  "(string \<Rightarrow> float64) \<Rightarrow> (float64 option \<Rightarrow> float64 option \<Rightarrow> js_error + coord) \<Rightarrow> js_value
     \<Rightarrow> js_error + geometry" where
  "parseWkt toNumber toWGS84 wktString =
     (case wktString of
        NotAString \<Rightarrow> Inl (Error ''Invalid WKT: input must be a non-empty string'')
      | WktString text \<Rightarrow>
          if text = [] then Inl (Error ''Invalid WKT: input must be a non-empty string'')
          else (let cleanedWkt = removeSridPrefix text
                in bindE (detectGeometryType cleanedWkt) (\<lambda>geometryType.
                   (case geometryType of
                      POLYGON \<Rightarrow> parsePolygon toNumber toWGS84 cleanedWkt
                    | MULTIPOLYGON \<Rightarrow> parseMultiPolygon toNumber toWGS84 cleanedWkt))))"

subsection \<open>Stand-ins for the builtins in closed examples\<close>

text \<open>
  The stub of the specification, \<^verbatim>\<open>(x, y) => ({lat: y / 100000, lng: x / 100000})\<close>:
  \<open>scale\<close> is the division by 100000, and \<^verbatim>\<open>undefined\<close> converts to NaN.
\<close>

definition ToNumber :: "float64 option \<Rightarrow> float64" where
  "ToNumber v = (case v of None \<Rightarrow> NaN | Some n \<Rightarrow> n)"

definition stub_projection ::
  "(float64 \<Rightarrow> float64) \<Rightarrow> float64 option \<Rightarrow> float64 option \<Rightarrow> js_error + coord" where
  "stub_projection scale x y = Inr \<lparr>lat = scale (ToNumber y), lng = scale (ToNumber x)\<rparr>"

text \<open>
  \<^verbatim>\<open>Number\<close> on a string of at most 15 decimal digits: the integer it denotes, which is
  a double (0 for the empty string). On every other string the stand-in returns NaN; it
  agrees with \<^verbatim>\<open>Number\<close> on strings that are no numeric literals, and is used on no
  others.
\<close>

definition of_small_int :: "int \<Rightarrow> float64" where
  "of_small_int n =
     (if n \<le> 0 then 0
      else (let p = int (length (filter (\<lambda>k. 2 ^ k \<le> n) [1..<53]))
            in word_of_int ((1023 + p) * 2 ^ 52 + (n - 2 ^ nat p) * 2 ^ nat (52 - p))))"

definition digit_value :: "char \<Rightarrow> int" where
  "digit_value c = int (of_char c) - 48"

definition decimal_Number :: "string \<Rightarrow> float64" where
  "decimal_Number s =
     (if list_all isDigit s \<and> length s \<le> 15
      then of_small_int (foldl (\<lambda>a c. 10 * a + digit_value c) 0 s) else NaN)"

subsection \<open>What a complete decode is\<close>

text \<open>
  A pair is rejected when its first number or, if it has one, its second number is NaN.
  A ring text is decoded into a ring when every pair of the text, in order, is accepted
  and projected to the coordinate at its position; likewise for the ring texts of a
  polygon text and for the polygon texts of a multipolygon.
\<close>

definition bad_pair :: "(string \<Rightarrow> float64) \<Rightarrow> string \<Rightarrow> bool" where
  "bad_pair toNumber pair \<longleftrightarrow>
     Number_isNaN (pair_x toNumber pair) \<or> Number_isNaN (pair_y toNumber pair)"

definition ring_decoded ::
  "(string \<Rightarrow> float64) \<Rightarrow> (float64 option \<Rightarrow> float64 option \<Rightarrow> js_error + coord) \<Rightarrow> string
     \<Rightarrow> coord list \<Rightarrow> bool" where
  "ring_decoded toNumber toWGS84 ringString ring \<longleftrightarrow>
     list_all2
       (\<lambda>pair c. \<not> bad_pair toNumber pair
          \<and> toWGS84 (pair_x toNumber pair) (pair_y toNumber pair) = Inr c)
       (pair_strings ringString) ring"

definition polygon_decoded ::
  "(string \<Rightarrow> float64) \<Rightarrow> (float64 option \<Rightarrow> float64 option \<Rightarrow> js_error + coord) \<Rightarrow> string
     \<Rightarrow> coord list list \<Rightarrow> bool" where
  "polygon_decoded toNumber toWGS84 content rings \<longleftrightarrow>
     list_all2 (ring_decoded toNumber toWGS84) (split ring_separator content) rings"

definition has_bad_pair :: "(string \<Rightarrow> float64) \<Rightarrow> string \<Rightarrow> bool" where
  "has_bad_pair toNumber content \<longleftrightarrow>
     list_ex (\<lambda>ringString. list_ex (bad_pair toNumber) (pair_strings ringString))
       (split ring_separator content)"

fun geometry_decoded ::
  "(string \<Rightarrow> float64) \<Rightarrow> (float64 option \<Rightarrow> float64 option \<Rightarrow> js_error + coord) \<Rightarrow> string
     \<Rightarrow> geometry \<Rightarrow> bool" where
  "geometry_decoded toNumber toWGS84 cleanedWkt (Polygon rings) =
     (case match_first ''POLYGON'' ''(('' ''))'' cleanedWkt of
        None \<Rightarrow> False
      | Some content \<Rightarrow> polygon_decoded toNumber toWGS84 content rings)"
| "geometry_decoded toNumber toWGS84 cleanedWkt (MultiPolygon polygons) =
     (case match_first ''MULTIPOLYGON'' ''((('' '')))'' cleanedWkt of
        None \<Rightarrow> False
      | Some content \<Rightarrow>
          list_all2 (polygon_decoded toNumber toWGS84) (split polygon_separator content)
            polygons)"

text \<open>The text of the specification's decoding example.\<close>

definition square_wkt :: string where
  "square_wkt =
     ''SRID=2180;POLYGON((500000 300000, 500100 300000, 500100 300100, 500000 300100, 500000 300000))''"

subsection \<open>Well-formedness of a document\<close>

text \<open>
  A recogniser for the part of XML 1.0 the exporter writes: an XML declaration, one root
  element, start tags with attributes, end tags that close the innermost open element,
  empty-element tags, character data, and the five predefined entity references in
  character data. Comments, CDATA sections, document type declarations and references
  in attribute values are rejected. It reads the document character by character; the
  state is what is being read, the names of the open elements (innermost first) and
  whether the root element has been closed.
\<close>

datatype xml_mode =
    Text
  | TagOpen
  | Declaration
  | DeclarationEnd
  | StartName string
  | Attributes string
  | AttributeName string
  | AttributeEquals string
  | AttributeValue string char
  | EmptyTagEnd string
  | EndName string
  | EndSpace string
  | Reference string
  | Malformed

definition isNameStart :: "char \<Rightarrow> bool" where
  "isNameStart c \<longleftrightarrow>
     c \<in> set ''abcdefghijklmnopqrstuvwxyzABCDEFGHIJKLMNOPQRSTUVWXYZ_:''"

definition isNameChar :: "char \<Rightarrow> bool" where
  \<open>isNameChar c \<longleftrightarrow> isNameStart c \<or> c \<in> set ''0123456789-.''\<close>

definition open_element :: "string \<Rightarrow> string list \<times> bool \<Rightarrow> xml_mode \<times> string list \<times> bool" where
  "open_element name st =
     (if fst st = [] \<and> snd st then (Malformed, st) else (Text, name # fst st, snd st))"

definition empty_element :: "string list \<times> bool \<Rightarrow> xml_mode \<times> string list \<times> bool" where
  "empty_element st =
     (if fst st = [] then (if snd st then (Malformed, st) else (Text, [], True))
      else (Text, st))"

definition close_element :: "string \<Rightarrow> string list \<times> bool \<Rightarrow> xml_mode \<times> string list \<times> bool" where
  "close_element name st =
     (case fst st of
        [] \<Rightarrow> (Malformed, st)
      | innermost # outer \<Rightarrow>
          if innermost = name then (Text, outer, snd st \<or> outer = []) else (Malformed, st))"

fun xml_step :: "xml_mode \<times> string list \<times> bool \<Rightarrow> char \<Rightarrow> xml_mode \<times> string list \<times> bool" where
  "xml_step (Text, st) c =
     (if c = CHR ''<'' then (TagOpen, st)
      else if fst st = [] then (if isSpace c then (Text, st) else (Malformed, st))
      else if c = CHR ''&'' then (Reference [], st)
      else (Text, st))"
| "xml_step (TagOpen, st) c =
     (if c = CHR ''?'' then (if fst st = [] \<and> \<not> snd st then (Declaration, st) else (Malformed, st))
      else if c = CHR ''/'' then (EndName [], st)
      else if isNameStart c then (StartName [c], st)
      else (Malformed, st))"
| "xml_step (Declaration, st) c =
     (if c = CHR ''?'' then (DeclarationEnd, st) else (Declaration, st))"
| "xml_step (DeclarationEnd, st) c =
     (if c = CHR ''>'' then (Text, st)
      else if c = CHR ''?'' then (DeclarationEnd, st) else (Declaration, st))"
| "xml_step (StartName name, st) c =
     (if isNameChar c then (StartName (name @ [c]), st)
      else if isSpace c then (Attributes name, st)
      else if c = CHR ''>'' then open_element name st
      else if c = CHR ''/'' then (EmptyTagEnd name, st)
      else (Malformed, st))"
| "xml_step (Attributes name, st) c =
     (if isSpace c then (Attributes name, st)
      else if c = CHR ''>'' then open_element name st
      else if c = CHR ''/'' then (EmptyTagEnd name, st)
      else if isNameStart c then (AttributeName name, st)
      else (Malformed, st))"
| "xml_step (AttributeName name, st) c =
     (if isNameChar c then (AttributeName name, st)
      else if c = CHR ''='' then (AttributeEquals name, st)
      else (Malformed, st))"
| "xml_step (AttributeEquals name, st) c =
     (if c = CHR 0x22 \<or> c = CHR 0x27 then (AttributeValue name c, st) else (Malformed, st))"
| "xml_step (AttributeValue name quote, st) c =
     (if c = quote then (Attributes name, st)
      else if c = CHR ''<'' \<or> c = CHR ''&'' then (Malformed, st)
      else (AttributeValue name quote, st))"
| "xml_step (EmptyTagEnd name, st) c =
     (if c = CHR ''>'' then empty_element st else (Malformed, st))"
| "xml_step (EndName name, st) c =
     (if isNameChar c then (EndName (name @ [c]), st)
      else if isSpace c then (EndSpace name, st)
      else if c = CHR ''>'' then close_element name st
      else (Malformed, st))"
| "xml_step (EndSpace name, st) c =
     (if isSpace c then (EndSpace name, st)
      else if c = CHR ''>'' then close_element name st
      else (Malformed, st))"
| "xml_step (Reference name, st) c =
     (if c = CHR '';''
      then (if name \<in> set [''amp'', ''lt'', ''gt'', ''quot'', ''apos''] then (Text, st)
            else (Malformed, st))
      else if isNameChar c \<and> length name < 4 then (Reference (name @ [c]), st)
      else (Malformed, st))"
| "xml_step (Malformed, st) c = (Malformed, st)"

definition well_formed :: "string \<Rightarrow> bool" where
  "well_formed document \<longleftrightarrow> foldl xml_step (Text, [], False) document = (Text, [], True)"

section \<open>Properties of the binary encoder\<close>

lemma bindE_Inr [simp]: "bindE (Inr x) f = f x"
  by (simp add: bindE_def)

lemma bindE_Inl [simp]: "bindE (Inl e) f = Inl e"
  by (simp add: bindE_def)

lemma length_le_bytes [simp]: "length (le_bytes n w) = n"
  by (simp add: le_bytes_def)

subsection \<open>Reading a little-endian field back\<close>

lemma le_word_step:
  "(ucast (ucast (drop_bit (8 * k) w) :: byte)
      OR push_bit 8 (take_bit (8 * n) (drop_bit (8 * Suc k) w)) :: 'a::len word)
     = take_bit (8 * Suc n) (drop_bit (8 * k) (w :: 'a word))"
proof (rule bit_word_eqI)
  fix m assume m: "m < LENGTH('a)"
  show "bit (ucast (ucast (drop_bit (8 * k) w) :: byte)
          OR push_bit 8 (take_bit (8 * n) (drop_bit (8 * Suc k) w)) :: 'a::len word) m
     = bit (take_bit (8 * Suc n) (drop_bit (8 * k) (w :: 'a word))) m"
  proof (cases "m < 8")
    case True
    with m show ?thesis
      by (simp add: bit_simps)
  next
    case False
    then have "8 * Suc k + (m - 8) = 8 * k + m"
      by simp
    with False m show ?thesis
      by (auto simp add: bit_simps)
  qed
qed

lemma le_word_upt:
  "(le_word (map (\<lambda>i. ucast (drop_bit (8 * i) w)) [k..<k + n]) :: 'a::len word)
     = take_bit (8 * n) (drop_bit (8 * k) (w :: 'a word))"
proof (induction n arbitrary: k)
  case 0
  then show ?case by (simp add: le_word_def)
next
  case (Suc n)
  have "[k..<k + Suc n] = k # [Suc k..<Suc k + n]"
    by (simp add: upt_rec)
  then show ?case
    using Suc.IH [of "Suc k"] le_word_step [of k w n]
    by (simp add: le_word_def)
qed

lemma le_word_le_bytes8 [simp]: "le_word (le_bytes 8 w) = (w :: 64 word)"
  using le_word_upt [of w 0 8] by (simp add: le_bytes_def take_bit_word_eq_self)

subsection \<open>Writing into a zeroed buffer from left to right\<close>

lemma set_bytes_fill:
  "length pre = offset \<Longrightarrow> length bs \<le> k \<Longrightarrow>
   set_bytes offset bs (pre @ replicate k 0) = Inr ((pre @ bs) @ replicate (k - length bs) 0)"
  by (simp add: set_bytes_def)

lemma createGpbHeader_None: "createGpbHeader srsId None = Inr (gpb_header_layout srsId None)"
  unfolding createGpbHeader_def gpb_header_layout_def ArrayBuffer_def setUint8_def setInt32_def
    flag_byte_def
  using set_bytes_fill [of "[]" 0 "[0x47]" 8]
    set_bytes_fill [of "[0x47]" 1 "[0x50]" 7]
    set_bytes_fill [of "[0x47, 0x50]" 2 "[0]" 6]
    set_bytes_fill [of "[0x47, 0x50, 0]" 3 "[1]" 5]
    set_bytes_fill [of "[0x47, 0x50, 0, 1]" 4 "le_bytes 4 (word_of_int srsId :: 32 word)" 4]
  by simp

lemma createGpbHeader_Some:
  "createGpbHeader srsId (Some e) = Inr (gpb_header_layout srsId (Some e))"
  unfolding createGpbHeader_def gpb_header_layout_def ArrayBuffer_def setUint8_def setInt32_def
    setFloat64_def flag_byte_def
  using set_bytes_fill [of "[]" 0 "[0x47]" 40]
    set_bytes_fill [of "[0x47]" 1 "[0x50]" 39]
    set_bytes_fill [of "[0x47, 0x50]" 2 "[0]" 38]
    set_bytes_fill [of "[0x47, 0x50, 0]" 3 "[3]" 37]
    set_bytes_fill [of "[0x47, 0x50, 0, 3]" 4 "le_bytes 4 (word_of_int srsId :: 32 word)" 36]
    set_bytes_fill [of "[0x47, 0x50, 0, 3] @ le_bytes 4 (word_of_int srsId :: 32 word)" 8
       "le_bytes 8 (minX e)" 32]
    set_bytes_fill [of "[0x47, 0x50, 0, 3] @ le_bytes 4 (word_of_int srsId :: 32 word)
       @ le_bytes 8 (minX e)" 16 "le_bytes 8 (maxX e)" 24]
    set_bytes_fill [of "[0x47, 0x50, 0, 3] @ le_bytes 4 (word_of_int srsId :: 32 word)
       @ le_bytes 8 (minX e) @ le_bytes 8 (maxX e)" 24 "le_bytes 8 (minY e)" 16]
    set_bytes_fill [of "[0x47, 0x50, 0, 3] @ le_bytes 4 (word_of_int srsId :: 32 word)
       @ le_bytes 8 (minX e) @ le_bytes 8 (maxX e) @ le_bytes 8 (minY e)" 32
       "le_bytes 8 (maxY e)" 8]
  by simp

lemma createGpbHeader_layout: "createGpbHeader srsId env = Inr (gpb_header_layout srsId env)"
  by (cases env) (simp_all add: createGpbHeader_None createGpbHeader_Some)

lemma length_gpb_header_layout:
  "length (gpb_header_layout srsId env) = (case env of None \<Rightarrow> 8 | Some e \<Rightarrow> 40)"
  by (simp add: gpb_header_layout_def split: option.splits)

lemma header_envelope_layout [simp]:
  "header_envelope (gpb_header_layout srsId (Some e) @ payload) = e"
  by (simp add: header_envelope_def gpb_header_layout_def)

lemma pointToWkb_layout: "pointToWkb x y = Inr (wkb_point_layout x y)"
  unfolding pointToWkb_def wkb_point_layout_def ArrayBuffer_def setUint8_def setUint32_def
    setFloat64_def
  using set_bytes_fill [of "[]" 0 "[1]" 21]
    set_bytes_fill [of "[1]" 1 "le_bytes 4 (1 :: 32 word)" 20]
    set_bytes_fill [of "[1] @ le_bytes 4 (1 :: 32 word)" 5 "le_bytes 8 x" 16]
    set_bytes_fill [of "[1] @ le_bytes 4 (1 :: 32 word) @ le_bytes 8 x" 13 "le_bytes 8 y" 8]
  by simp

lemma createPointGpb_layout:
  "createPointGpb x y srsId =
     Inr (gpb_header_layout srsId (Some \<lparr>minX = x, maxX = x, minY = y, maxY = y\<rparr>)
          @ wkb_point_layout x y)"
  by (simp add: createPointGpb_def createGpbHeader_layout pointToWkb_layout)

lemma length_coords_bytes [simp]: "length (concat (map coord_bytes cs)) = 16 * length cs"
  by (induction cs) (simp_all add: coord_bytes_def)

lemma length_ring_bytes [simp]: "length (ring_bytes cs) = 4 + 16 * length cs"
  by (simp add: ring_bytes_def)

lemma wkb_coords_fill:
  "length pre = offset \<Longrightarrow> 16 * length cs \<le> k \<Longrightarrow>
   wkb_coords cs (pre @ replicate k 0, offset) =
     Inr ((pre @ concat (map coord_bytes cs)) @ replicate (k - 16 * length cs) 0,
          offset + 16 * length cs)"
proof (induction cs arbitrary: pre offset k)
  case Nil
  then show ?case by simp
next
  case (Cons c cs)
  have 1: "set_bytes offset (le_bytes 8 (prop_lng c)) (pre @ replicate k 0)
      = Inr ((pre @ le_bytes 8 (prop_lng c)) @ replicate (k - 8) 0)"
    using Cons.prems set_bytes_fill [of pre offset "le_bytes 8 (prop_lng c)" k] by simp
  have 2: "set_bytes (offset + 8) (le_bytes 8 (prop_lat c))
        ((pre @ le_bytes 8 (prop_lng c)) @ replicate (k - 8) 0)
      = Inr ((pre @ coord_bytes c) @ replicate (k - 16) 0)"
    using Cons.prems
      set_bytes_fill [of "pre @ le_bytes 8 (prop_lng c)" "offset + 8" "le_bytes 8 (prop_lat c)" "k - 8"]
    by (simp add: coord_bytes_def)
  have 3: "wkb_coords cs ((pre @ coord_bytes c) @ replicate (k - 16) 0, offset + 8 + 8)
      = Inr (((pre @ coord_bytes c) @ concat (map coord_bytes cs))
               @ replicate (k - 16 - 16 * length cs) 0, offset + 8 + 8 + 16 * length cs)"
    using Cons.prems by (intro Cons.IH) (simp_all add: coord_bytes_def)
  have "wkb_coords (c # cs) (pre @ replicate k 0, offset)
      = Inr (((pre @ coord_bytes c) @ concat (map coord_bytes cs))
               @ replicate (k - 16 - 16 * length cs) 0, offset + 8 + 8 + 16 * length cs)"
    by (simp only: wkb_coords.simps setFloat64_def 1 2 3 bindE_Inr)
  then show ?case
    by simp
qed


lemma length_rings_bytes:
  "length (concat (map ring_bytes css)) = sum_list (map (\<lambda>cs. 4 + length cs * 16) css)"
  by (induction css) simp_all

lemma wkb_size_Arr:
  "wkb_size (map Arr css) (Some t) = Some (t + length (concat (map ring_bytes css)))"
  by (induction css arbitrary: t) simp_all

lemma wkb_rings_fill:
  "length pre = offset \<Longrightarrow> length (concat (map ring_bytes css)) \<le> k \<Longrightarrow>
   wkb_rings (map Arr css) (pre @ replicate k 0, offset) =
     Inr ((pre @ concat (map ring_bytes css)) @ replicate (k - length (concat (map ring_bytes css))) 0,
          offset + length (concat (map ring_bytes css)))"
proof (induction css arbitrary: pre offset k)
  case Nil
  then show ?case by simp
next
  case (Cons cs css)
  let ?n = "le_bytes 4 (of_nat (length cs) :: 32 word)"
  let ?rest = "length (concat (map ring_bytes css))"
  from Cons.prems have k: "4 + 16 * length cs + ?rest \<le> k"
    by simp
  have 1: "set_bytes offset ?n (pre @ replicate k 0) = Inr ((pre @ ?n) @ replicate (k - 4) 0)"
    using Cons.prems(1) k set_bytes_fill [of pre offset ?n k] by simp
  have 2: "wkb_coords cs ((pre @ ?n) @ replicate (k - 4) 0, offset + 4)
      = Inr (((pre @ ?n) @ concat (map coord_bytes cs)) @ replicate (k - 4 - 16 * length cs) 0,
             offset + 4 + 16 * length cs)"
    using Cons.prems(1) k by (intro wkb_coords_fill) simp_all
  have 3: "wkb_rings (map Arr css)
        (((pre @ ?n) @ concat (map coord_bytes cs)) @ replicate (k - 4 - 16 * length cs) 0,
         offset + 4 + 16 * length cs)
      = Inr ((((pre @ ?n) @ concat (map coord_bytes cs)) @ concat (map ring_bytes css))
               @ replicate (k - 4 - 16 * length cs - ?rest) 0,
             offset + 4 + 16 * length cs + ?rest)"
    using Cons.prems(1) k by (intro Cons.IH) simp_all
  have "wkb_rings (map Arr (cs # css)) (pre @ replicate k 0, offset)
      = Inr ((((pre @ ?n) @ concat (map coord_bytes cs)) @ concat (map ring_bytes css))
               @ replicate (k - 4 - 16 * length cs - ?rest) 0,
             offset + 4 + 16 * length cs + ?rest)"
    by (simp only: list.map wkb_rings.simps elements.simps length_prop.simps option.case
        setUint32_def 1 2 3 bindE_Inr)
  moreover have "ring_bytes cs = ?n @ concat (map coord_bytes cs)"
    by (simp add: ring_bytes_def)
  ultimately show ?case
    by simp
qed

lemma polygonToWkb_Arr:
  "polygonToWkb (map Arr css) =
     Inr ([1] @ le_bytes 4 (3 :: 32 word) @ le_bytes 4 (of_nat (length css) :: 32 word)
          @ concat (map ring_bytes css))"
proof -
  let ?p = "length (concat (map ring_bytes css))"
  let ?c = "le_bytes 4 (of_nat (length css) :: 32 word)"
  have 1: "set_bytes 0 [1] (replicate (9 + ?p) 0) = Inr ([1] @ replicate (8 + ?p) 0)"
    using set_bytes_fill [of "[]" 0 "[1]" "9 + ?p"] by simp
  have 2: "set_bytes 1 (le_bytes 4 (3 :: 32 word)) ([1] @ replicate (8 + ?p) 0)
      = Inr (([1] @ le_bytes 4 (3 :: 32 word)) @ replicate (4 + ?p) 0)"
    using set_bytes_fill [of "[1]" 1 "le_bytes 4 (3 :: 32 word)" "8 + ?p"] by simp
  have 3: "set_bytes 5 ?c (([1] @ le_bytes 4 (3 :: 32 word)) @ replicate (4 + ?p) 0)
      = Inr ((([1] @ le_bytes 4 (3 :: 32 word)) @ ?c) @ replicate ?p 0)"
    using set_bytes_fill [of "[1] @ le_bytes 4 (3 :: 32 word)" 5 ?c "4 + ?p"] by simp
  have 4: "wkb_rings (map Arr css) ((([1] @ le_bytes 4 (3 :: 32 word)) @ ?c) @ replicate ?p 0, 9)
      = Inr (((([1] @ le_bytes 4 (3 :: 32 word)) @ ?c) @ concat (map ring_bytes css))
               @ replicate (?p - ?p) 0, 9 + ?p)"
    by (intro wkb_rings_fill) simp_all
  show ?thesis
    unfolding polygonToWkb_def wkb_size_Arr option.case bindE_Inr Let_def ArrayBuffer_def
      setUint8_def setUint32_def length_map 1 2 3 4
    by simp
qed

subsection \<open>Order of doubles\<close>

lemma f64_eqI:
  assumes "bit a 63 = bit b 63" and "f64_magnitude a = f64_magnitude b"
  shows "a = b"
proof (rule bit_word_eqI)
  fix n assume n: "n < LENGTH(64)"
  have m: "(0x7FFFFFFFFFFFFFFF :: 64 word) = mask 63"
    by (simp add: mask_eq_exp_minus_1)
  from assms(2) have t: "take_bit 63 a = take_bit 63 b"
    by (simp add: f64_magnitude_def m take_bit_eq_mask word_uint_eq_iff)
  show "bit a n = bit b n"
  proof (cases "n = 63")
    case True
    then show ?thesis using assms(1) by simp
  next
    case False
    with n have "n < 63" by simp
    then have "bit a n = bit (take_bit 63 a) n"
      by (simp add: bit_take_bit_iff)
    also have "\<dots> = bit (take_bit 63 b) n"
      by (simp add: t)
    also have "\<dots> = bit b n"
      using \<open>n < 63\<close> by (simp add: bit_take_bit_iff)
    finally show ?thesis .
  qed
qed

lemma f64_magnitude_nonneg: "0 \<le> f64_magnitude w"
  by (simp add: f64_magnitude_def)

lemma Infinity_greatest:
  assumes "\<not> isNaN x" and "f64_key Infinity \<le> f64_key x"
  shows "x = Infinity"
proof -
  have k: "f64_key Infinity = 0x7FF0000000000000" and b: "\<not> bit Infinity 63"
    and m: "f64_magnitude Infinity = 0x7FF0000000000000"
    by (simp_all add: f64_key_def f64_magnitude_def Infinity_def)
  from assms(2) have x: "0x7FF0000000000000 \<le> f64_key x"
    by (simp only: k)
  then have "\<not> bit x 63"
    using f64_magnitude_nonneg [of x] by (cases "bit x 63") (simp_all add: f64_key_def)
  moreover from this x assms(1) have "f64_magnitude x = 0x7FF0000000000000"
    by (simp add: f64_key_def isNaN_def)
  ultimately show ?thesis
    using b m by (intro f64_eqI) simp_all
qed

lemma NegInfinity_least:
  assumes "\<not> isNaN x" and "f64_key x \<le> f64_key NegInfinity"
  shows "x = NegInfinity"
proof -
  have k: "f64_key NegInfinity = - 0x7FF0000000000000" and b: "bit NegInfinity 63"
    and m: "f64_magnitude NegInfinity = 0x7FF0000000000000"
    by (simp_all add: f64_key_def f64_magnitude_def NegInfinity_def)
  from assms(2) have x: "f64_key x \<le> - 0x7FF0000000000000"
    by (simp only: k)
  then have "bit x 63"
    using f64_magnitude_nonneg [of x] by (cases "bit x 63") (simp_all add: f64_key_def)
  moreover from this x assms(1) have "f64_magnitude x = 0x7FF0000000000000"
    by (simp add: f64_key_def isNaN_def)
  ultimately show ?thesis
    using b m by (intro f64_eqI) simp_all
qed


subsection \<open>The running bounds\<close>

lemma bound_step_fields:
  "minX (bound_step e c) = low_step (minX e) (prop_lng c)"
  "maxX (bound_step e c) = high_step (maxX e) (prop_lng c)"
  "minY (bound_step e c) = low_step (minY e) (prop_lat c)"
  "maxY (bound_step e c) = high_step (maxY e) (prop_lat c)"
  by (simp_all add: bound_step_def low_step_def high_step_def)

lemma foldl_bound_step_fields:
  "minX (foldl bound_step e cs) = foldl low_step (minX e) (map prop_lng cs)"
  "maxX (foldl bound_step e cs) = foldl high_step (maxX e) (map prop_lng cs)"
  "minY (foldl bound_step e cs) = foldl low_step (minY e) (map prop_lat cs)"
  "maxY (foldl bound_step e cs) = foldl high_step (maxY e) (map prop_lat cs)"
  by (induction cs arbitrary: e) (simp_all add: bound_step_fields)

lemma foldl_low_step:
  assumes "\<not> isNaN m" and "\<forall>x\<in>set xs. \<not> isNaN x"
  shows "\<not> isNaN (foldl low_step m xs) \<and>
         (foldl low_step m xs = m \<or> foldl low_step m xs \<in> set xs) \<and>
         f64_key (foldl low_step m xs) \<le> f64_key m \<and>
         (\<forall>x\<in>set xs. f64_key (foldl low_step m xs) \<le> f64_key x)"
  using assms
proof (induction xs arbitrary: m)
  case Nil
  then show ?case by simp
next
  case (Cons x xs)
  let ?m = "low_step m x"
  from Cons.prems have m: "\<not> isNaN ?m" "?m = m \<or> ?m = x"
    "f64_key ?m \<le> f64_key m" "f64_key ?m \<le> f64_key x"
    by (auto simp: low_step_def js_lt_def)
  from Cons.prems have "\<forall>y\<in>set xs. \<not> isNaN y"
    by simp
  from Cons.IH [OF m(1) this] m show ?case
    by auto
qed

lemma foldl_high_step:
  assumes "\<not> isNaN m" and "\<forall>x\<in>set xs. \<not> isNaN x"
  shows "\<not> isNaN (foldl high_step m xs) \<and>
         (foldl high_step m xs = m \<or> foldl high_step m xs \<in> set xs) \<and>
         f64_key m \<le> f64_key (foldl high_step m xs) \<and>
         (\<forall>x\<in>set xs. f64_key x \<le> f64_key (foldl high_step m xs))"
  using assms
proof (induction xs arbitrary: m)
  case Nil
  then show ?case by simp
next
  case (Cons x xs)
  let ?m = "high_step m x"
  from Cons.prems have m: "\<not> isNaN ?m" "?m = m \<or> ?m = x"
    "f64_key m \<le> f64_key ?m" "f64_key x \<le> f64_key ?m"
    by (auto simp: high_step_def js_gt_def js_lt_def)
  from Cons.prems have "\<forall>y\<in>set xs. \<not> isNaN y"
    by simp
  from Cons.IH [OF m(1) this] m show ?case
    by auto
qed

lemma not_isNaN_Infinity: "\<not> isNaN Infinity" "\<not> isNaN NegInfinity"
  by (simp_all add: isNaN_def f64_magnitude_def Infinity_def NegInfinity_def)

lemma low_from_Infinity:
  assumes "xs \<noteq> []" and "\<forall>x\<in>set xs. \<not> isNaN x"
  shows "is_minimum (foldl low_step Infinity xs) xs"
proof -
  let ?r = "foldl low_step Infinity xs"
  note r = foldl_low_step [OF not_isNaN_Infinity(1) assms(2)]
  from assms(1) obtain x where x: "x \<in> set xs"
    by (cases xs) auto
  have "?r \<in> set xs"
  proof (cases "?r = Infinity")
    case True
    with r x have "f64_key Infinity \<le> f64_key x" by auto
    with assms(2) x have "x = Infinity" by (intro Infinity_greatest) auto
    with True x show ?thesis by simp
  next
    case False
    with r show ?thesis by blast
  qed
  with r assms(2) show ?thesis
    by (auto simp: is_minimum_def list_all_iff js_le_def)
qed

lemma high_from_NegInfinity:
  assumes "xs \<noteq> []" and "\<forall>x\<in>set xs. \<not> isNaN x"
  shows "is_maximum (foldl high_step NegInfinity xs) xs"
proof -
  let ?r = "foldl high_step NegInfinity xs"
  note r = foldl_high_step [OF not_isNaN_Infinity(2) assms(2)]
  from assms(1) obtain x where x: "x \<in> set xs"
    by (cases xs) auto
  have "?r \<in> set xs"
  proof (cases "?r = NegInfinity")
    case True
    with r x have "f64_key x \<le> f64_key NegInfinity" by auto
    with assms(2) x have "x = NegInfinity" by (intro NegInfinity_least) auto
    with True x show ?thesis by simp
  next
    case False
    with r show ?thesis by blast
  qed
  with r assms(2) show ?thesis
    by (auto simp: is_maximum_def list_all_iff js_le_def)
qed

lemma bound_rings_Arr: "bound_rings (map Arr css) e = Inr (foldl bound_step e (concat css))"
  by (induction css arbitrary: e) simp_all


subsection \<open>The encoder on rings of coordinates\<close>

lemma coord_bytes_Coord: "coord_bytes (Coord c) = xy_bytes c"
  by (simp add: coord_bytes_def xy_bytes_def)

lemma ring_bytes_Coord: "ring_bytes (map Coord ring) = wkb_ring_layout ring"
  by (simp add: ring_bytes_def wkb_ring_layout_def comp_def coord_bytes_Coord)

lemma ring_nodes_Arr: "map ring_node rings = map Arr (map (map Coord) rings)"
  by (simp add: ring_node_def)

lemma polygonToWkb_layout: "polygonToWkb (map ring_node rings) = Inr (wkb_polygon_layout rings)"
  unfolding ring_nodes_Arr polygonToWkb_Arr
  by (simp add: wkb_polygon_layout_def comp_def ring_bytes_Coord)

lemma createPolygonGpb_layout:
  "createPolygonGpb (map ring_node rings) srsId =
     Inr (gpb_header_layout srsId
            (Some (foldl bound_step empty_envelope (map Coord (concat rings))))
          @ wkb_polygon_layout rings)"
proof -
  have "bound_rings (map ring_node rings) empty_envelope
      = Inr (foldl bound_step empty_envelope (map Coord (concat rings)))"
    unfolding ring_nodes_Arr bound_rings_Arr by (simp add: map_concat)
  then show ?thesis
    by (simp add: createPolygonGpb_def polygonToWkb_layout createGpbHeader_layout)
qed

lemma polygon_envelope_extremal:
  assumes "concat rings \<noteq> []"
    and "list_all (\<lambda>c. \<not> isNaN (lng c) \<and> \<not> isNaN (lat c)) (concat rings)"
  defines "e \<equiv> foldl bound_step empty_envelope (map Coord (concat rings))"
  shows "is_minimum (minX e) (map lng (concat rings))"
    and "is_maximum (maxX e) (map lng (concat rings))"
    and "is_minimum (minY e) (map lat (concat rings))"
    and "is_maximum (maxY e) (map lat (concat rings))"
proof -
  have x: "map prop_lng (map Coord (concat rings)) = map lng (concat rings)"
    and y: "map prop_lat (map Coord (concat rings)) = map lat (concat rings)"
    by (simp_all add: comp_def)
  from assms(1) have ne: "map lng (concat rings) \<noteq> []" "map lat (concat rings) \<noteq> []"
    by simp_all
  from assms(2) have nx: "\<forall>v\<in>set (map lng (concat rings)). \<not> isNaN v"
    and ny: "\<forall>v\<in>set (map lat (concat rings)). \<not> isNaN v"
    by (auto simp: list_all_iff)
  show "is_minimum (minX e) (map lng (concat rings))"
    unfolding e_def foldl_bound_step_fields x using low_from_Infinity [OF ne(1) nx]
    by (simp add: empty_envelope_def)
  show "is_maximum (maxX e) (map lng (concat rings))"
    unfolding e_def foldl_bound_step_fields x using high_from_NegInfinity [OF ne(1) nx]
    by (simp add: empty_envelope_def)
  show "is_minimum (minY e) (map lat (concat rings))"
    unfolding e_def foldl_bound_step_fields y using low_from_Infinity [OF ne(2) ny]
    by (simp add: empty_envelope_def)
  show "is_maximum (maxY e) (map lat (concat rings))"
    unfolding e_def foldl_bound_step_fields y using high_from_NegInfinity [OF ne(2) ny]
    by (simp add: empty_envelope_def)
qed

text \<open>
  C1. The envelope in the header of an encoded point is the point itself four times
  (minX = maxX = longitude, minY = maxY = latitude). The envelope in the header of an
  encoded polygon holds, for X and for Y, the least and the greatest value found among
  all coordinates of all rings, holes included, whenever the rings hold at least one
  coordinate and no coordinate is NaN.
\<close>

theorem header_envelope_bounds:
  "(\<exists>gpb. createPointGpb x y srsId = Inr gpb
      \<and> header_envelope gpb = \<lparr>minX = x, maxX = x, minY = y, maxY = y\<rparr>)
   \<and> (concat rings \<noteq> [] \<longrightarrow>
        list_all (\<lambda>c. \<not> isNaN (lng c) \<and> \<not> isNaN (lat c)) (concat rings) \<longrightarrow>
        (\<exists>gpb. createPolygonGpb (coordinates (Polygon rings)) srsId' = Inr gpb
           \<and> is_minimum (minX (header_envelope gpb)) (map lng (concat rings))
           \<and> is_maximum (maxX (header_envelope gpb)) (map lng (concat rings))
           \<and> is_minimum (minY (header_envelope gpb)) (map lat (concat rings))
           \<and> is_maximum (maxY (header_envelope gpb)) (map lat (concat rings))))"
  using polygon_envelope_extremal [of rings]
  by (simp add: createPointGpb_layout createPolygonGpb_layout)

theorem header_envelope_bounds_witness:
  "\<exists>gpb. createPolygonGpb
       (coordinates (Polygon
         [[\<lparr>lat = 0, lng = 0x3FF0000000000000\<rparr>, \<lparr>lat = 0x4000000000000000, lng = 0x3FF0000000000000\<rparr>,
           \<lparr>lat = 0x4000000000000000, lng = 0x4000000000000000\<rparr>, \<lparr>lat = 0, lng = 0x3FF0000000000000\<rparr>],
          [\<lparr>lat = 0xBFF0000000000000, lng = 0x4008000000000000\<rparr>]])) 4326 = Inr gpb
     \<and> is_minimum (minX (header_envelope gpb))
           [0x3FF0000000000000, 0x3FF0000000000000, 0x4000000000000000, 0x3FF0000000000000,
            0x4008000000000000]
     \<and> is_maximum (maxX (header_envelope gpb))
           [0x3FF0000000000000, 0x3FF0000000000000, 0x4000000000000000, 0x3FF0000000000000,
            0x4008000000000000]
     \<and> is_minimum (minY (header_envelope gpb))
           [0, 0x4000000000000000, 0x4000000000000000, 0, 0xBFF0000000000000]
     \<and> is_maximum (maxY (header_envelope gpb))
           [0, 0x4000000000000000, 0x4000000000000000, 0, 0xBFF0000000000000]"
  using header_envelope_bounds [of 0 0 0
      "[[\<lparr>lat = 0, lng = 0x3FF0000000000000\<rparr>, \<lparr>lat = 0x4000000000000000, lng = 0x3FF0000000000000\<rparr>,
           \<lparr>lat = 0x4000000000000000, lng = 0x4000000000000000\<rparr>, \<lparr>lat = 0, lng = 0x3FF0000000000000\<rparr>],
          [\<lparr>lat = 0xBFF0000000000000, lng = 0x4008000000000000\<rparr>]]" 4326]
  by (simp add: isNaN_def f64_magnitude_def)

text \<open>
  C2. The encoder returns the envelope header followed by the geometry payload, in the
  prescribed little-endian layout: the header is G, P, version 0, the flag byte (bit 0
  set, envelope type 1 in bits 1-3 when an envelope is present), the srs id as a 32-bit
  integer and, with an envelope, minX, maxX, minY, maxY as doubles (40 bytes, 8 without);
  the payload is the byte-order flag 1, the type code (1 point, 3 polygon) and then X, Y
  for a point or, for a polygon, the ring count and per ring the point count and the X, Y
  pairs in the order of the ring.
\<close>

theorem encoder_output_layout:
  "createGpbHeader srsId env = Inr (gpb_header_layout srsId env)
   \<and> length (gpb_header_layout srsId None) = 8
   \<and> length (gpb_header_layout srsId (Some e)) = 40
   \<and> bit (flag_byte 1) 0 \<and> take_bit 3 (drop_bit 1 (flag_byte 1)) = 1
   \<and> bit (flag_byte 0) 0 \<and> take_bit 3 (drop_bit 1 (flag_byte 0)) = 0
   \<and> createPointGpb x y srsId =
        Inr (gpb_header_layout srsId (Some \<lparr>minX = x, maxX = x, minY = y, maxY = y\<rparr>)
             @ wkb_point_layout x y)
   \<and> (\<exists>env'. createPolygonGpb (coordinates (Polygon rings)) srsId =
          Inr (gpb_header_layout srsId (Some env') @ wkb_polygon_layout rings))"
  by (auto simp add: createGpbHeader_layout length_gpb_header_layout createPointGpb_layout
      createPolygonGpb_layout flag_byte_def)
section \<open>Properties of the GeoPackage exporter\<close>

lemma bound_rings_ring_nodes:
  "bound_rings (map ring_node rings) e = Inr (foldl bound_step e (map Coord (concat rings)))"
  unfolding ring_nodes_Arr bound_rings_Arr by (simp add: map_concat)

text \<open>
  On parcels whose geometry is a POLYGON the polygon loop inserts one row per parcel, in
  the order of the list, holding the encoding of all rings of the parcel, and extends the
  running bounds by every coordinate of every ring.
\<close>

lemma insert_polygons_Polygon:
  "list_all (\<lambda>p. is_Polygon (geometry p)) ps \<Longrightarrow>
   insert_polygons ps (rows, e) =
     Inr (rows @ map (\<lambda>p. \<lparr>parcel_id = id' p,
                             geom = gpb_header_layout 4326
                                 (Some (foldl bound_step empty_envelope
                                    (map Coord (concat (polygon_rings (geometry p))))))
                               @ wkb_polygon_layout (polygon_rings (geometry p))\<rparr>) ps,
          foldl bound_step e
            (map Coord (concat (concat (map (\<lambda>p. polygon_rings (geometry p)) ps)))))"
proof (induction ps arbitrary: rows e)
  case Nil
  then show ?case by simp
next
  case (Cons p ps)
  then obtain rings where g: "geometry p = Polygon rings"
    by (cases "geometry p") auto
  from Cons.prems have "list_all (\<lambda>p. is_Polygon (geometry p)) ps"
    by simp
  note IH = Cons.IH [OF this]
  show ?case
    by (simp add: g createPolygonGpb_layout bound_rings_ring_nodes IH)
qed

text \<open>
  The registration of a layer whose bounds are still infinite fails in the engine: with
  no parcel at all, and with MULTIPOLYGON parcels only, whose coordinates the bounds loop
  does not reach. A negative zero is registered as zero.
\<close>

lemma sql_number_finite:
  "isFinite x \<Longrightarrow> f64_magnitude x \<noteq> 0 \<Longrightarrow> sql_number x = Inr x"
  by (simp add: sql_number_def isFinite_def isNaN_def)

lemma sql_number_negative_zero:
  "sql_number 0x8000000000000000 = Inr 0"
  by code_simp

lemma sql_number_Infinity:
  "sql_number Infinity = Inl (Error ''no such column: Infinity'')
   \<and> sql_number NegInfinity = Inl (Error ''no such column: Infinity'')"
  by code_simp

lemma gpkg_no_parcel:
  "generateGpkgWithLayers timestamp [] \<lparr>includePolygons = Some True, includePoints = None\<rparr>
     = Inl (Error ''no such column: Infinity'')
   \<and> generateGpkgWithLayers timestamp [] \<lparr>includePolygons = None, includePoints = Some True\<rparr>
     = Inl (Error ''no such column: Infinity'')"
  by (simp add: generateGpkgWithLayers_def or_false_def add_polygons_layer_def
      add_points_layer_def insert_contents_def empty_envelope_def sql_number_Infinity)

lemma gpkg_multipolygon_only:
  "generateGpkgWithLayers ''2026-01-01T00:00:00.000Z'' [multipolygon_parcel]
       \<lparr>includePolygons = Some True, includePoints = None\<rparr>
     = Inl (Error ''no such column: Infinity'')"
  by code_simp

text \<open>
  C3. The claim holds for POLYGON parcels (above) and fails for a MULTIPOLYGON parcel:
  the exporter passes the array of sub-polygons where the encoder expects the array of
  rings. Exporting the square and the MULTIPOLYGON triangle, the row of the square holds
  its encoding, and the row of the triangle is a polygon with one ring of one point
  whose X and Y are NaN, under an envelope from Infinity to -Infinity; the bounding box
  of the layer is that of the square alone, from 0 to 1, although the triangle lies
  between 2 and 3. No coordinate of the MULTIPOLYGON parcel is written.
\<close>

theorem gpkg_multipolygon_row:
  "(case generateGpkgWithLayers ''2026-01-01T00:00:00.000Z'' [square_parcel, multipolygon_parcel]
           \<lparr>includePolygons = Some True, includePoints = None\<rparr> of
      Inl e \<Rightarrow> False
    | Inr db \<Rightarrow>
        map_option (map geom) (polygons_table db) =
          Some [gpb_header_layout 4326
                  (Some \<lparr>minX = 0, maxX = 0x3FF0000000000000,
                         minY = 0, maxY = 0x3FF0000000000000\<rparr>)
                @ wkb_polygon_layout (polygon_rings (geometry square_parcel)),
                gpb_header_layout 4326 (Some empty_envelope)
                @ [1] @ le_bytes 4 (3 :: 32 word) @ le_bytes 4 (1 :: 32 word)
                @ le_bytes 4 (1 :: 32 word) @ le_bytes 8 NaN @ le_bytes 8 NaN]
        \<and> map (\<lambda>r. (min_x r, min_y r, max_x r, max_y r)) (gpkg_contents db)
            = [(0, 0, 0x3FF0000000000000, 0x3FF0000000000000)])"
  by code_simp

section \<open>Properties of vertex extraction\<close>

lemma foldl_addVertex:
  "foldl (addVertex ts) (vs, seen) xs =
     (vs @ dedup_by (vertex_key ts) (filter (\<lambda>x. vertex_key ts x \<notin> seen) xs),
      seen \<union> vertex_key ts ` set xs)"
proof (induction xs arbitrary: vs seen)
  case Nil
  then show ?case by simp
next
  case (Cons x xs)
  show ?case
  proof (cases "vertex_key ts x \<in> seen")
    case True
    then have "addVertex ts (vs, seen) x = (vs, seen)"
      by (simp add: addVertex_def)
    with True Cons.IH [of vs seen] show ?thesis
      by auto
  next
    case False
    then have "addVertex ts (vs, seen) x = (vs @ [x], insert (vertex_key ts x) seen)"
      by (simp add: addVertex_def)
    with False Cons.IH [of "vs @ [x]" "insert (vertex_key ts x) seen"] show ?thesis
      by (simp add: conj_commute)
  qed
qed

lemma add_outer_ring_Cons:
  "add_outer_ring ts (ring # holes) ([], {}) = Inr (dedup_by (vertex_key ts) (butlast ring), vertex_key ts ` set (butlast ring))"
  by (simp add: add_outer_ring_def foldl_addVertex)

lemma add_polygons_foldl:
  "list_all (\<lambda>p. p \<noteq> []) polygons \<Longrightarrow>
   add_polygons ts polygons st = Inr (foldl (addVertex ts) st (concat (map outer_vertices polygons)))"
proof (induction polygons arbitrary: st)
  case Nil
  then show ?case by simp
next
  case (Cons p ps)
  then obtain ring holes where p: "p = ring # holes"
    by (cases p) auto
  with Cons show ?case
    by (simp add: add_outer_ring_def outer_vertices_def)
qed

text \<open>
  C4 (as amended). For a MULTIPOLYGON, extractVertices takes the first ring of every
  sub-polygon without its closing element and deduplicates, by the coordinates rounded
  to 8 decimals, over all sub-polygons together: a vertex shared by two sub-polygons is
  returned once, at its first occurrence.
\<close>

theorem extractVertices_MultiPolygon:
  "list_all (\<lambda>p. p \<noteq> []) polygons \<Longrightarrow>
   extractVertices ts (MultiPolygon polygons) =
     Inr (dedup_across_polygons (vertex_key ts) polygons)"
  by (simp add: add_polygons_foldl foldl_addVertex dedup_across_polygons_def)

theorem extractVertices_MultiPolygon_witness:
  "list_all (\<lambda>p. p \<noteq> []) shared_vertex_polygons
   \<and> extractVertices no_toString (MultiPolygon shared_vertex_polygons) =
       Inr [\<lparr>lat = 0, lng = 0\<rparr>, \<lparr>lat = 0, lng = 0x3FF0000000000000\<rparr>,
            \<lparr>lat = 0x3FF0000000000000, lng = 0x3FF0000000000000\<rparr>,
            \<lparr>lat = 0x3FF0000000000000, lng = 0x4000000000000000\<rparr>,
            \<lparr>lat = 0x4000000000000000, lng = 0x4000000000000000\<rparr>]"
proof -
  have h: "list_all (\<lambda>p. p \<noteq> []) shared_vertex_polygons"
    by (simp add: shared_vertex_polygons_def)
  have "dedup_across_polygons (vertex_key no_toString) shared_vertex_polygons =
      [\<lparr>lat = 0, lng = 0\<rparr>, \<lparr>lat = 0, lng = 0x3FF0000000000000\<rparr>,
       \<lparr>lat = 0x3FF0000000000000, lng = 0x3FF0000000000000\<rparr>,
       \<lparr>lat = 0x3FF0000000000000, lng = 0x4000000000000000\<rparr>,
       \<lparr>lat = 0x4000000000000000, lng = 0x4000000000000000\<rparr>]"
    by code_simp
  with h extractVertices_MultiPolygon [OF h, of no_toString] show ?thesis
    by simp
qed

text \<open>
  The claim as stated, deduplication within each sub-polygon only, fails on two
  sub-polygons that share a vertex.
\<close>

theorem extractVertices_per_polygon_counterexample:
  "extractVertices no_toString (MultiPolygon shared_vertex_polygons)
     \<noteq> Inr (dedup_per_polygon (vertex_key no_toString) shared_vertex_polygons)"
  by code_simp

text \<open>
  C5. For a POLYGON, extractVertices returns the first ring without its last element,
  deduplicated by the coordinates rounded to 8 decimals, the first occurrence kept and
  the order preserved (a POLYGON without any ring has no first ring, and the call is a
  TypeError). The ring (0,0), (0,1), (1,1), (0,0) gives (0,0), (0,1), (1,1); two
  vertices that differ only from the ninth decimal on (19.123456781 and 19.123456784)
  count as one.
\<close>

theorem extractVertices_Polygon:
  "extractVertices ts (Polygon (ring # holes)) = Inr (dedup_by (vertex_key ts) (butlast ring))
   \<and> isl (extractVertices ts (Polygon []))
   \<and> extractVertices ts
         (Polygon [[\<lparr>lat = 0, lng = 0\<rparr>, \<lparr>lat = 0, lng = 0x3FF0000000000000\<rparr>,
                    \<lparr>lat = 0x3FF0000000000000, lng = 0x3FF0000000000000\<rparr>, \<lparr>lat = 0, lng = 0\<rparr>]])
       = Inr [\<lparr>lat = 0, lng = 0\<rparr>, \<lparr>lat = 0, lng = 0x3FF0000000000000\<rparr>,
              \<lparr>lat = 0x3FF0000000000000, lng = 0x3FF0000000000000\<rparr>]
   \<and> extractVertices ts
         (Polygon [[\<lparr>lat = 0x4049000000000000, lng = 0x40331F9ADD14DD4C\<rparr>,
                    \<lparr>lat = 0x4049000000000000, lng = 0x40331F9ADD21BFD4\<rparr>,
                    \<lparr>lat = 0x3FF0000000000000, lng = 0x3FF0000000000000\<rparr>,
                    \<lparr>lat = 0x4049000000000000, lng = 0x40331F9ADD14DD4C\<rparr>]])
       = Inr [\<lparr>lat = 0x4049000000000000, lng = 0x40331F9ADD14DD4C\<rparr>,
              \<lparr>lat = 0x3FF0000000000000, lng = 0x3FF0000000000000\<rparr>]"
proof (intro conjI)
  show "extractVertices ts (Polygon (ring # holes))
      = Inr (dedup_by (vertex_key ts) (butlast ring))"
    by (simp add: add_outer_ring_Cons)
  show "isl (extractVertices ts (Polygon []))"
    by (simp add: add_outer_ring_def)
  show "extractVertices ts
         (Polygon [[\<lparr>lat = 0, lng = 0\<rparr>, \<lparr>lat = 0, lng = 0x3FF0000000000000\<rparr>,
                    \<lparr>lat = 0x3FF0000000000000, lng = 0x3FF0000000000000\<rparr>, \<lparr>lat = 0, lng = 0\<rparr>]])
       = Inr [\<lparr>lat = 0, lng = 0\<rparr>, \<lparr>lat = 0, lng = 0x3FF0000000000000\<rparr>,
              \<lparr>lat = 0x3FF0000000000000, lng = 0x3FF0000000000000\<rparr>]"
    by code_simp
  show "extractVertices ts
         (Polygon [[\<lparr>lat = 0x4049000000000000, lng = 0x40331F9ADD14DD4C\<rparr>,
                    \<lparr>lat = 0x4049000000000000, lng = 0x40331F9ADD21BFD4\<rparr>,
                    \<lparr>lat = 0x3FF0000000000000, lng = 0x3FF0000000000000\<rparr>,
                    \<lparr>lat = 0x4049000000000000, lng = 0x40331F9ADD14DD4C\<rparr>]])
       = Inr [\<lparr>lat = 0x4049000000000000, lng = 0x40331F9ADD14DD4C\<rparr>,
              \<lparr>lat = 0x3FF0000000000000, lng = 0x3FF0000000000000\<rparr>]"
    by code_simp
qed

section \<open>Properties of the GeoJSON exporter\<close>

lemma push_polygon_features_map:
  "push_polygon_features ps features = features @ map polygon_feature ps"
  by (induction ps arbitrary: features) simp_all

lemma push_vertex_features_enumerate:
  "push_vertex_features pid vs index features =
     features @ map (\<lambda>(i, v). point_feature pid i v) (enumerate index vs)"
  by (induction vs arbitrary: index features) simp_all

lemma push_point_features_concat:
  "push_point_features ps features = features @ concat (map parcel_point_features ps)"
  by (induction ps arbitrary: features)
    (simp_all add: push_vertex_features_enumerate parcel_point_features_def)

lemma layer_of_polygon_feature [simp]: "layer_of (polygon_feature p) = JString ''polygons''"
  by (simp add: layer_of_def polygon_feature_def)

lemma layer_of_point_feature [simp]: "layer_of (point_feature pid i v) = JString ''points''"
  by (simp add: layer_of_def point_feature_def)

lemma length_parcel_point_features [simp]:
  "length (parcel_point_features p) = length (vertices p)"
  by (simp add: parcel_point_features_def)

lemma length_concat_point_features:
  "length (concat (map parcel_point_features ps)) = sum_list (map (\<lambda>p. length (vertices p)) ps)"
  by (induction ps) simp_all

text \<open>
  C7. With both layers requested the feature collection holds one polygon feature per
  parcel (properties parcel_id and layer "polygons"), in the order of the parcels,
  followed by one point feature per vertex of every parcel (properties parcel_id,
  point_index counted from 1 within the parcel, layer "points"): the first
  \<open>length parcels\<close> features are the polygon features and all others are point
  features. Two parcels with 3 and 4 vertices give 9 features.
\<close>

theorem geojson_both_layers:
  "geojson_features parcels \<lparr>includePolygons = Some True, includePoints = Some True\<rparr>
     = map polygon_feature parcels @ concat (map parcel_point_features parcels)
   \<and> length (geojson_features parcels \<lparr>includePolygons = Some True, includePoints = Some True\<rparr>)
     = length parcels + sum_list (map (\<lambda>p. length (vertices p)) parcels)
   \<and> map layer_of (take (length parcels)
         (geojson_features parcels \<lparr>includePolygons = Some True, includePoints = Some True\<rparr>))
     = replicate (length parcels) (JString ''polygons'')
   \<and> map layer_of (drop (length parcels)
         (geojson_features parcels \<lparr>includePolygons = Some True, includePoints = Some True\<rparr>))
     = replicate (sum_list (map (\<lambda>p. length (vertices p)) parcels)) (JString ''points'')
   \<and> member_of ''properties'' (polygon_feature p)
     = JObject [(''parcel_id'', JString (id' p)), (''layer'', JString ''polygons'')]
   \<and> parcel_point_features p
     = map (\<lambda>i. point_feature (id' p) i (vertices p ! i)) [0..<length (vertices p)]
   \<and> member_of ''properties'' (point_feature pid i v)
     = JObject [(''parcel_id'', JString pid), (''point_index'', JInteger (i + 1)),
                (''layer'', JString ''points'')]
   \<and> length (vertices multipolygon_parcel) = 3 \<and> length (vertices square_parcel) = 4
   \<and> length (geojson_features [multipolygon_parcel, square_parcel]
         \<lparr>includePolygons = Some True, includePoints = Some True\<rparr>) = 9"
proof -
  let ?both = "\<lparr>includePolygons = Some True, includePoints = Some True\<rparr>"
  have f: "geojson_features parcels ?both
      = map polygon_feature parcels @ concat (map parcel_point_features parcels)" for parcels
    by (simp add: geojson_features_def or_false_def push_polygon_features_map
        push_point_features_concat)
  have one: "map layer_of (parcel_point_features q)
      = replicate (length (vertices q)) (JString ''points'')" for q
    by (simp add: parcel_point_features_def case_prod_unfold comp_def map_replicate_const)
  have points: "map layer_of (concat (map parcel_point_features ps))
      = replicate (sum_list (map (\<lambda>p. length (vertices p)) ps)) (JString ''points'')" for ps
    by (induction ps) (simp_all add: one replicate_add)
  have polys: "map (layer_of \<circ> polygon_feature) ps
      = replicate (length ps) (JString ''polygons'')" for ps
    by (induction ps) simp_all
  have e: "parcel_point_features p
      = map (\<lambda>i. point_feature (id' p) i (vertices p ! i)) [0..<length (vertices p)]"
    by (rule nth_equalityI) (simp_all add: parcel_point_features_def nth_enumerate_eq)
  have v: "length (vertices multipolygon_parcel) = 3" "length (vertices square_parcel) = 4"
    by (simp_all add: multipolygon_parcel_def square_parcel_def)
  show ?thesis
    unfolding f
    by (simp add: length_concat_point_features points polys e v)
      (simp add: polygon_feature_def point_feature_def)
qed

section \<open>Properties of the KML exporter\<close>

lemma replace_all_append [simp]:
  "replace_all c r (xs @ ys) = replace_all c r xs @ replace_all c r ys"
  by (simp add: replace_all_def)

lemma replace_all_Nil [simp]: "replace_all c r [] = []"
  by (simp add: replace_all_def)

lemma replace_all_concat:
  "replace_all c r (concat (map f s)) = concat (map (\<lambda>x. replace_all c r (f x)) s)"
  by (induction s) simp_all

lemma replace_all_as_concat: "replace_all c r s = concat (map (\<lambda>x. if x = c then r else [x]) s)"
  by (simp add: replace_all_def)

lemma escape_char:
  "replace_all (CHR 0x27) ''&apos;''
     (replace_all (CHR 0x22) ''&quot;''
       (replace_all CHR ''>'' ''&gt;''
         (replace_all CHR ''<'' ''&lt;'' (if x = CHR ''&'' then ''&amp;'' else [x]))))
   = xml_entity x"
  by (simp add: replace_all_def xml_entity_def)

lemma escapeXml_entities: "escapeXml s = concat (map xml_entity s)"
proof (cases "s = []")
  case True
  then show ?thesis by (simp add: escapeXml_def)
next
  case False
  have "replace_all CHR ''&'' ''&amp;'' s
      = concat (map (\<lambda>x. if x = CHR ''&'' then ''&amp;'' else [x]) s)"
    by (rule replace_all_as_concat)
  with False show ?thesis
    by (simp add: escapeXml_def replace_all_concat escape_char)
qed

lemma xml_text_ok_entity: "xml_text_ok (xml_entity c @ rest) = xml_text_ok rest"
  by (simp add: xml_entity_def reserved_def)

lemma xml_text_ok_escapeXml: "xml_text_ok (escapeXml s)"
  unfolding escapeXml_entities
  by (induction s) (simp_all add: xml_text_ok_entity)

lemma filter_reserved_entity [simp]: "filter reserved (xml_entity c) = []"
  by (simp add: xml_entity_def reserved_def)

lemma filter_reserved_escapeXml [simp]: "filter reserved (escapeXml s) = []"
  unfolding escapeXml_entities by (induction s) simp_all


lemma parcel_id_update:
  "geometry (p\<lparr>id' := x\<rparr>) = geometry p" "vertices (p\<lparr>id' := x\<rparr>) = vertices p"
  "id' (p\<lparr>id' := x\<rparr>) = x"
  by simp_all

lemma filter_reserved_polygon_placemark:
  "filter reserved (polygon_placemark ts (p\<lparr>id' := x\<rparr>)) = filter reserved (polygon_placemark ts p)"
  unfolding polygon_placemark_def filter_append
  by (simp only: filter_reserved_escapeXml parcel_id_update)

lemma filter_reserved_point_placemark:
  "filter reserved (point_placemark ts (p\<lparr>id' := x\<rparr>) i v) = filter reserved (point_placemark ts p i v)"
  unfolding point_placemark_def filter_append
  by (simp only: filter_reserved_escapeXml parcel_id_update)

lemma filter_reserved_polygons_folder:
  "filter reserved (polygons_folder ts (map (\<lambda>p. p\<lparr>id' := f p\<rparr>) ps))
     = filter reserved (polygons_folder ts ps)"
proof -
  have "filter reserved (concat (map (polygon_placemark ts) (map (\<lambda>p. p\<lparr>id' := f p\<rparr>) ps)))
      = filter reserved (concat (map (polygon_placemark ts) ps))"
    by (induction ps) (simp_all add: filter_reserved_polygon_placemark)
  then show ?thesis
    unfolding polygons_folder_def Let_def filter_append length_map by (simp only:)
qed

lemma filter_reserved_points_folder:
  "filter reserved (points_folder ts (map (\<lambda>p. p\<lparr>id' := f p\<rparr>) ps))
     = filter reserved (points_folder ts ps)"
proof -
  have one: "filter reserved (concat (map (\<lambda>(i, v). point_placemark ts (p\<lparr>id' := x\<rparr>) i v) ivs))
      = filter reserved (concat (map (\<lambda>(i, v). point_placemark ts p i v) ivs))" for p x ivs
    by (induction ivs) (simp_all add: filter_reserved_point_placemark case_prod_unfold)
  have "filter reserved (concat (concat (map (\<lambda>parcel.
              map (\<lambda>(index, point). point_placemark ts parcel index point)
                (enumerate 0 (vertices parcel))) (map (\<lambda>p. p\<lparr>id' := f p\<rparr>) ps))))
      = filter reserved (concat (concat (map (\<lambda>parcel.
              map (\<lambda>(index, point). point_placemark ts parcel index point)
                (enumerate 0 (vertices parcel))) ps)))"
    by (induction ps) (simp_all add: one)
  then show ?thesis
    unfolding points_folder_def Let_def filter_append length_map by (simp only:)
qed

lemma filter_reserved_kml:
  "filter reserved (generateKmlWithLayers ts t (map (\<lambda>p. p\<lparr>id' := f p\<rparr>) ps) options)
     = filter reserved (generateKmlWithLayers ts t ps options)"
  unfolding generateKmlWithLayers_def kml_tail_def Let_def
  by (cases "or_false (includePolygons options)"; cases "or_false (includePoints options)")
    (simp_all only: filter_append length_map filter_reserved_polygons_folder
      filter_reserved_points_folder if_True if_False append_Nil)


lemma contains_append: "contains n (pre @ n @ post)"
proof (induction pre)
  case Nil
  have t: "take (length n) (n @ post) = n"
    by simp
  show ?case
  proof (cases "n @ post")
    case Nil
    then show ?thesis by simp
  next
    case (Cons c cs)
    with t have "take (length n) (c # cs) = n"
      by simp
    with Cons show ?thesis
      by (simp del: take_Suc_Cons take_Cons_numeral)
  qed
next
  case (Cons p ps)
  then show ?case by simp
qed

lemma contains_iff: "contains n xs \<longleftrightarrow> (\<exists>pre post. xs = pre @ n @ post)"
proof
  show "contains n xs \<Longrightarrow> \<exists>pre post. xs = pre @ n @ post"
  proof (induction xs)
    case Nil
    then show ?case by simp
  next
    case (Cons c cs)
    show ?case
    proof (cases "take (length n) (c # cs) = n")
      case True
      then have "c # cs = [] @ n @ drop (length n) (c # cs)"
        by (metis append_Nil append_take_drop_id)
      then show ?thesis by blast
    next
      case False
      with Cons.prems have "contains n cs"
        by simp
      with Cons.IH obtain pre post where "cs = pre @ n @ post"
        by blast
      then have "c # cs = (c # pre) @ n @ post"
        by simp
      then show ?thesis by blast
    qed
  qed
next
  show "\<exists>pre post. xs = pre @ n @ post \<Longrightarrow> contains n xs"
    using contains_append by blast
qed

lemma contains_appendI1: "contains n ys \<Longrightarrow> contains n (xs @ ys)"
  unfolding contains_iff by (metis append_assoc)

lemma contains_appendI2: "contains n xs \<Longrightarrow> contains n (xs @ ys)"
  unfolding contains_iff by (metis append_assoc)

lemma contains_polygon_placemark:
  assumes "id' q = ''A&B<C''"
  shows "contains ''<name>A&amp;B&lt;C</name>'' (polygon_placemark ts q)"
proof -
  have e: "escapeXml (id' q) = ''A&amp;B&lt;C''"
    by (simp add: assms escapeXml_entities xml_entity_def)
  have "''        <name>'' @ escapeXml (id' q) @ ''</name>''
      = ''        '' @ ''<name>A&amp;B&lt;C</name>'' @ []"
    by (simp add: e)
  then have "contains ''<name>A&amp;B&lt;C</name>'' (''        <name>'' @ escapeXml (id' q) @ ''</name>'')"
    by (simp only: contains_append)
  then have "contains ''<name>A&amp;B&lt;C</name>''
      ((''        <name>'' @ escapeXml (id' q) @ ''</name>'') @ rest)" for rest
    by (rule contains_appendI2)
  then have "contains ''<name>A&amp;B&lt;C</name>''
      (''        <name>'' @ escapeXml (id' q) @ ''</name>'' @ rest)" for rest
    by (simp only: append_assoc)
  note f = this
  show ?thesis
    unfolding polygon_placemark_def
    by (rule f | rule contains_appendI1)+
qed

lemma contains_polygons_folder:
  assumes "contains n (polygon_placemark ts q)"
  shows "contains n (polygons_folder ts [q])"
proof -
  from assms have f: "contains n (concat (map (polygon_placemark ts) [q]) @ rest)" for rest
    by (simp add: contains_appendI2)
  show ?thesis
    unfolding polygons_folder_def Let_def
    by (rule f | rule contains_appendI1)+
qed

lemma contains_kml_tail:
  assumes "contains n folders"
  shows "contains n (kml_tail folders)"
proof -
  from assms have f: "contains n (folders @ rest)" for rest
    by (simp add: contains_appendI2)
  show ?thesis
    unfolding kml_tail_def
    by (rule f | rule contains_appendI1)+
qed

lemma contains_kml:
  assumes "id' q = ''A&B<C''"
  shows "contains ''<name>A&amp;B&lt;C</name>''
     (generateKmlWithLayers ts t [q] \<lparr>includePolygons = Some True, includePoints = io\<rparr>)"
proof -
  let ?n = "''<name>A&amp;B&lt;C</name>''"
  have p: "contains ?n (polygons_folder ts [q])"
    using assms by (intro contains_polygons_folder contains_polygon_placemark)
  have "contains ?n (kml_tail (if or_false io then ([] @ polygons_folder ts [q]) @ points_folder ts [q]
       else [] @ polygons_folder ts [q]))"
    by (rule contains_kml_tail) (simp add: p contains_appendI2)
  then have "contains ?n (kml_head (decimal (int (length [q]))) @ t @
      kml_tail (if or_false io then ([] @ polygons_folder ts [q]) @ points_folder ts [q]
       else [] @ polygons_folder ts [q]))"
    by (intro contains_appendI1)
  then show ?thesis
    unfolding generateKmlWithLayers_def Let_def
    by (simp only: export_options.simps or_false_def option.case if_True)
qed


text \<open>
  C8. escapeXml replaces each of the five reserved characters by its entity and leaves
  every other character alone; its result holds none of \<open><\<close>, \<open>>\<close> and the two quotes, and
  every \<open>&\<close> in it begins an entity reference. The document receives a parcel id only
  through escapeXml, so the reserved characters of the document are the same whatever
  the ids are. A parcel with the id \<open>A&B<C\<close> appears in the document under the name
  \<open>A&amp;B&lt;C\<close>, and the document exported for the square with that id is
  well-formed, which the name would not be with the id as written.
\<close>

theorem kml_parcel_id_escaped:
  "escapeXml s = concat (map xml_entity s)
   \<and> xml_text_ok (escapeXml s)
   \<and> filter reserved (escapeXml s) = []
   \<and> filter reserved
         (generateKmlWithLayers ts t (map (\<lambda>p. p\<lparr>id' := f p\<rparr>) ps) options)
       = filter reserved (generateKmlWithLayers ts t ps options)
   \<and> escapeXml ''A&B<C'' = ''A&amp;B&lt;C''
   \<and> contains ''<name>A&amp;B&lt;C</name>''
         (generateKmlWithLayers ts t [q\<lparr>id' := ''A&B<C''\<rparr>]
            \<lparr>includePolygons = Some True, includePoints = io\<rparr>)
   \<and> well_formed
         (generateKmlWithLayers no_toString ''2026-01-01T00:00:00.000Z''
            [square_parcel\<lparr>id' := ''A&B<C''\<rparr>]
            \<lparr>includePolygons = Some True, includePoints = Some True\<rparr>)
   \<and> \<not> well_formed ''<name>A&B<C</name>''"
proof (intro conjI)
  show "escapeXml s = concat (map xml_entity s)"
    by (rule escapeXml_entities)
  show "xml_text_ok (escapeXml s)"
    by (rule xml_text_ok_escapeXml)
  show "filter reserved (escapeXml s) = []"
    by (rule filter_reserved_escapeXml)
  show "filter reserved
         (generateKmlWithLayers ts t (map (\<lambda>p. p\<lparr>id' := f p\<rparr>) ps) options)
       = filter reserved (generateKmlWithLayers ts t ps options)"
    by (rule filter_reserved_kml)
  show "escapeXml ''A&B<C'' = ''A&amp;B&lt;C''"
    by (simp add: escapeXml_entities xml_entity_def)
  show "contains ''<name>A&amp;B&lt;C</name>''
         (generateKmlWithLayers ts t [q\<lparr>id' := ''A&B<C''\<rparr>]
            \<lparr>includePolygons = Some True, includePoints = io\<rparr>)"
    by (rule contains_kml) simp
  show "well_formed
         (generateKmlWithLayers no_toString ''2026-01-01T00:00:00.000Z''
            [square_parcel\<lparr>id' := ''A&B<C''\<rparr>]
            \<lparr>includePolygons = Some True, includePoints = Some True\<rparr>)"
    by code_simp
  show "\<not> well_formed ''<name>A&B<C</name>''"
    by code_simp
qed

section \<open>Properties of the WKT decoder\<close>

lemma map_throwing_Inr_iff:
  "map_throwing f xs = Inr ys \<longleftrightarrow> list_all2 (\<lambda>x y. f x = Inr y) xs ys"
proof (induction xs arbitrary: ys)
  case Nil
  then show ?case by auto
next
  case (Cons x xs)
  show ?case
  proof (cases "f x")
    case (Inl e)
    then show ?thesis by (auto simp: list_all2_Cons1)
  next
    case (Inr y)
    show ?thesis
    proof (cases "map_throwing f xs")
      case (Inl e)
      with Inr Cons.IH show ?thesis
        by (auto simp: list_all2_Cons1)
    next
      case r: (Inr zs)
      with Inr Cons.IH show ?thesis
        by (auto simp: list_all2_Cons1)
    qed
  qed
qed

lemma map_throwing_isl:
  "list_ex (\<lambda>x. isl (f x)) xs \<Longrightarrow> isl (map_throwing f xs)"
proof (induction xs)
  case Nil
  then show ?case by simp
next
  case (Cons x xs)
  show ?case
  proof (cases "f x")
    case (Inl e)
    then show ?thesis by simp
  next
    case (Inr y)
    with Cons have "isl (map_throwing f xs)"
      by simp
    with Inr show ?thesis
      by (cases "map_throwing f xs") simp_all
  qed
qed

lemma parsePair_bad:
  "bad_pair N pair \<Longrightarrow> parsePair N P pair = Inl (TypeError (''Invalid coordinate pair: '' @ pair))"
  by (simp add: parsePair_def bad_pair_def Let_def)

lemma parsePair_Inr_iff:
  "parsePair N P pair = Inr c \<longleftrightarrow>
     \<not> bad_pair N pair \<and> P (pair_x N pair) (pair_y N pair) = Inr c"
  by (simp add: parsePair_def bad_pair_def Let_def)

lemma parseCoordinatePairs_Inr_iff:
  "parseCoordinatePairs N P ringString = Inr ring \<longleftrightarrow> ring_decoded N P ringString ring"
  by (simp add: parseCoordinatePairs_def ring_decoded_def map_throwing_Inr_iff parsePair_Inr_iff)

lemma parseRings_Inr_iff:
  "parseRings N P content = Inr rings \<longleftrightarrow> polygon_decoded N P content rings"
  by (simp add: parseRings_def polygon_decoded_def map_throwing_Inr_iff
      parseCoordinatePairs_Inr_iff)

lemma parseCoordinatePairs_bad:
  "list_ex (bad_pair N) (pair_strings ringString) \<Longrightarrow> isl (parseCoordinatePairs N P ringString)"
  unfolding parseCoordinatePairs_def
  by (rule map_throwing_isl) (force simp: list_ex_iff parsePair_bad)

lemma parseRings_bad: "has_bad_pair N content \<Longrightarrow> isl (parseRings N P content)"
  unfolding parseRings_def has_bad_pair_def
  by (rule map_throwing_isl) (metis (mono_tags, lifting) list_ex_iff parseCoordinatePairs_bad)


lemma startsWith_POLYGON_not_MULTI:
  "startsWith s ''POLYGON'' \<Longrightarrow> \<not> startsWith s ''MULTIPOLYGON''"
  by (cases s) (auto simp: startsWith_def)

lemma parseWkt_POLYGON:
  assumes "text \<noteq> []" and "startsWith (toUpperCase (removeSridPrefix text)) ''POLYGON''"
  shows "parseWkt N P (WktString text) = parsePolygon N P (removeSridPrefix text)"
  using assms startsWith_POLYGON_not_MULTI [OF assms(2)]
  by (simp add: parseWkt_def detectGeometryType_def Let_def)

lemma parseWkt_MULTIPOLYGON:
  assumes "text \<noteq> []" and "startsWith (toUpperCase (removeSridPrefix text)) ''MULTIPOLYGON''"
  shows "parseWkt N P (WktString text) = parseMultiPolygon N P (removeSridPrefix text)"
  using assms by (simp add: parseWkt_def detectGeometryType_def Let_def)

lemma parseWkt_unknown:
  assumes "text \<noteq> []" and "\<not> startsWith (toUpperCase (removeSridPrefix text)) ''POLYGON''"
    and "\<not> startsWith (toUpperCase (removeSridPrefix text)) ''MULTIPOLYGON''"
  shows "parseWkt N P (WktString text) = Inl (Error ''Unknown or unsupported WKT geometry type'')"
  using assms by (simp add: parseWkt_def detectGeometryType_def Let_def)

lemma bindE_Inr_iff: "bindE m (\<lambda>x. Inr (h x)) = Inr g \<longleftrightarrow> (\<exists>x. m = Inr x \<and> g = h x)"
  by (cases m) auto

lemma parsePolygon_Inr_iff:
  "parsePolygon N P cleaned = Inr g \<longleftrightarrow>
     (\<exists>rings. g = Polygon rings \<and> geometry_decoded N P cleaned g)"
  by (cases "match_first ''POLYGON'' ''(('' ''))'' cleaned")
    (auto simp: parsePolygon_def bindE_Inr_iff parseRings_Inr_iff)

lemma parseMultiPolygon_Inr_iff:
  "parseMultiPolygon N P cleaned = Inr g \<longleftrightarrow>
     (\<exists>polygons. g = MultiPolygon polygons \<and> geometry_decoded N P cleaned g)"
  by (cases "match_first ''MULTIPOLYGON'' ''((('' '')))'' cleaned")
    (auto simp: parseMultiPolygon_def bindE_Inr_iff map_throwing_Inr_iff parseRings_Inr_iff)

lemma parseWkt_Inr:
  assumes "parseWkt N P v = Inr g"
  shows "\<exists>s. v = WktString s \<and> s \<noteq> [] \<and> geometry_decoded N P (removeSridPrefix s) g"
proof -
  from assms obtain s where v: "v = WktString s" and t: "s \<noteq> []"
    by (cases v) (auto simp: parseWkt_def split: if_splits)
  let ?c = "removeSridPrefix s"
  show ?thesis
  proof (cases "startsWith (toUpperCase ?c) ''MULTIPOLYGON''")
    case True
    with assms v t parseWkt_MULTIPOLYGON [OF t True, of N P] show ?thesis
      by (auto simp: parseMultiPolygon_Inr_iff)
  next
    case False
    show ?thesis
    proof (cases "startsWith (toUpperCase ?c) ''POLYGON''")
      case True
      with assms v t parseWkt_POLYGON [OF t True, of N P] show ?thesis
        by (auto simp: parsePolygon_Inr_iff)
    next
      case f: False
      with False assms v t parseWkt_unknown [OF t f False, of N P] show ?thesis
        by simp
    qed
  qed
qed


lemma parsePolygon_None:
  "match_first ''POLYGON'' ''(('' ''))'' cleaned = None \<Longrightarrow>
   parsePolygon N P cleaned = Inl (Error ''Invalid POLYGON WKT format'')"
  by (simp add: parsePolygon_def)

lemma parseMultiPolygon_None:
  "match_first ''MULTIPOLYGON'' ''((('' '')))'' cleaned = None \<Longrightarrow>
   parseMultiPolygon N P cleaned = Inl (Error ''Invalid MULTIPOLYGON WKT format'')"
  by (simp add: parseMultiPolygon_def)

lemma isl_bindE: "isl m \<Longrightarrow> isl (bindE m f)"
  by (cases m) simp_all

lemma parsePolygon_bad:
  "match_first ''POLYGON'' ''(('' ''))'' cleaned = Some content \<Longrightarrow> has_bad_pair N content \<Longrightarrow>
   isl (parsePolygon N P cleaned)"
  by (simp add: parsePolygon_def isl_bindE parseRings_bad)

lemma parseMultiPolygon_bad:
  "match_first ''MULTIPOLYGON'' ''((('' '')))'' cleaned = Some content \<Longrightarrow>
   list_ex (has_bad_pair N) (split polygon_separator content) \<Longrightarrow>
   isl (parseMultiPolygon N P cleaned)"
proof -
  assume m: "match_first ''MULTIPOLYGON'' ''((('' '')))'' cleaned = Some content"
    and b: "list_ex (has_bad_pair N) (split polygon_separator content)"
  from b have "list_ex (\<lambda>x. isl (parseRings N P x)) (split polygon_separator content)"
    by (auto simp: list_ex_iff intro: parseRings_bad)
  then have "isl (map_throwing (parseRings N P) (split polygon_separator content))"
    by (rule map_throwing_isl)
  with m show ?thesis
    by (simp add: parseMultiPolygon_def isl_bindE)
qed

text \<open>
  A pair with a single number is not rejected by the decoder itself: \<^verbatim>\<open>Number.isNaN\<close> is
  false on the missing second number, and the projection is called with \<^verbatim>\<open>undefined\<close>.
\<close>

lemma parseWkt_single_number_pair:
  "parseWkt decimal_Number (stub_projection id) (WktString ''POLYGON((5))'')
     = Inr (Polygon [[\<lparr>lat = NaN, lng = 0x4014000000000000\<rparr>]])"
  by code_simp

text \<open>
  C6 (as amended). parseWkt raises an error when the input is not a string or is empty;
  when the text, after an optional \<open>SRID=<n>;\<close> prefix is removed and the text is trimmed,
  does not begin with POLYGON or MULTIPOLYGON in either letter case (as
  \<open>LINESTRING(0 0, 1 1)\<close>); when the text holds no match of the keyword, optional white
  space, the opening parentheses, at least one character and the closing parentheses;
  and when the first number of some coordinate pair, or its second number where it has
  one, is NaN. When it returns a geometry, every ring text and every pair of the matched
  text has been accepted and projected, in order: the geometry is complete.
\<close>

theorem parseWkt_errors:
  "parseWkt N P NotAString = Inl (Error ''Invalid WKT: input must be a non-empty string'')
   \<and> parseWkt N P (WktString []) = Inl (Error ''Invalid WKT: input must be a non-empty string'')
   \<and> (s \<noteq> [] \<longrightarrow> \<not> startsWith (toUpperCase (removeSridPrefix s)) ''POLYGON'' \<longrightarrow>
        \<not> startsWith (toUpperCase (removeSridPrefix s)) ''MULTIPOLYGON'' \<longrightarrow>
        parseWkt N P (WktString s) = Inl (Error ''Unknown or unsupported WKT geometry type''))
   \<and> parseWkt N P (WktString ''LINESTRING(0 0, 1 1)'')
       = Inl (Error ''Unknown or unsupported WKT geometry type'')
   \<and> (s \<noteq> [] \<longrightarrow> startsWith (toUpperCase (removeSridPrefix s)) ''POLYGON'' \<longrightarrow>
        match_first ''POLYGON'' ''(('' ''))'' (removeSridPrefix s) = None \<longrightarrow>
        parseWkt N P (WktString s) = Inl (Error ''Invalid POLYGON WKT format''))
   \<and> (s \<noteq> [] \<longrightarrow> startsWith (toUpperCase (removeSridPrefix s)) ''MULTIPOLYGON'' \<longrightarrow>
        match_first ''MULTIPOLYGON'' ''((('' '')))'' (removeSridPrefix s) = None \<longrightarrow>
        parseWkt N P (WktString s) = Inl (Error ''Invalid MULTIPOLYGON WKT format''))
   \<and> (s \<noteq> [] \<longrightarrow> startsWith (toUpperCase (removeSridPrefix s)) ''POLYGON'' \<longrightarrow>
        match_first ''POLYGON'' ''(('' ''))'' (removeSridPrefix s) = Some content \<longrightarrow>
        has_bad_pair N content \<longrightarrow> isl (parseWkt N P (WktString s)))
   \<and> (s \<noteq> [] \<longrightarrow> startsWith (toUpperCase (removeSridPrefix s)) ''MULTIPOLYGON'' \<longrightarrow>
        match_first ''MULTIPOLYGON'' ''((('' '')))'' (removeSridPrefix s) = Some content \<longrightarrow>
        list_ex (has_bad_pair N) (split polygon_separator content) \<longrightarrow>
        isl (parseWkt N P (WktString s)))
   \<and> (parseWkt N P v = Inr g \<longrightarrow>
        (\<exists>s. v = WktString s \<and> s \<noteq> [] \<and> geometry_decoded N P (removeSridPrefix s) g))"
proof (intro conjI impI)
  show "parseWkt N P NotAString = Inl (Error ''Invalid WKT: input must be a non-empty string'')"
    by (simp add: parseWkt_def)
  show "parseWkt N P (WktString []) = Inl (Error ''Invalid WKT: input must be a non-empty string'')"
    by (simp add: parseWkt_def)
  show "parseWkt N P (WktString ''LINESTRING(0 0, 1 1)'')
       = Inl (Error ''Unknown or unsupported WKT geometry type'')"
    by code_simp
next
  assume "s \<noteq> []" "\<not> startsWith (toUpperCase (removeSridPrefix s)) ''POLYGON''"
    "\<not> startsWith (toUpperCase (removeSridPrefix s)) ''MULTIPOLYGON''"
  then show "parseWkt N P (WktString s) = Inl (Error ''Unknown or unsupported WKT geometry type'')"
    by (rule parseWkt_unknown)
next
  assume "s \<noteq> []" "startsWith (toUpperCase (removeSridPrefix s)) ''POLYGON''"
    "match_first ''POLYGON'' ''(('' ''))'' (removeSridPrefix s) = None"
  then show "parseWkt N P (WktString s) = Inl (Error ''Invalid POLYGON WKT format'')"
    by (simp add: parseWkt_POLYGON parsePolygon_None)
next
  assume "s \<noteq> []" "startsWith (toUpperCase (removeSridPrefix s)) ''MULTIPOLYGON''"
    "match_first ''MULTIPOLYGON'' ''((('' '')))'' (removeSridPrefix s) = None"
  then show "parseWkt N P (WktString s) = Inl (Error ''Invalid MULTIPOLYGON WKT format'')"
    by (simp add: parseWkt_MULTIPOLYGON parseMultiPolygon_None)
next
  assume "s \<noteq> []" "startsWith (toUpperCase (removeSridPrefix s)) ''POLYGON''"
    "match_first ''POLYGON'' ''(('' ''))'' (removeSridPrefix s) = Some content"
    "has_bad_pair N content"
  then show "isl (parseWkt N P (WktString s))"
    by (simp add: parseWkt_POLYGON parsePolygon_bad)
next
  assume "s \<noteq> []" "startsWith (toUpperCase (removeSridPrefix s)) ''MULTIPOLYGON''"
    "match_first ''MULTIPOLYGON'' ''((('' '')))'' (removeSridPrefix s) = Some content"
    "list_ex (has_bad_pair N) (split polygon_separator content)"
  then show "isl (parseWkt N P (WktString s))"
    by (simp add: parseWkt_MULTIPOLYGON parseMultiPolygon_bad)
next
  assume "parseWkt N P v = Inr g"
  then show "\<exists>s. v = WktString s \<and> s \<noteq> [] \<and> geometry_decoded N P (removeSridPrefix s) g"
    by (rule parseWkt_Inr)
qed

theorem parseWkt_errors_witness:
  "parseWkt decimal_Number (stub_projection id) (WktString ''POINT(1 2)'')
     = Inl (Error ''Unknown or unsupported WKT geometry type'')
   \<and> parseWkt decimal_Number (stub_projection id) (WktString ''SRID=2180;POLYGON((1 2)'')
     = Inl (Error ''Invalid POLYGON WKT format'')
   \<and> parseWkt decimal_Number (stub_projection id) (WktString ''MULTIPOLYGON((1 2))'')
     = Inl (Error ''Invalid MULTIPOLYGON WKT format'')
   \<and> isl (parseWkt decimal_Number (stub_projection id) (WktString ''POLYGON((0 0, 1 x, 1 1))''))
   \<and> isl (parseWkt decimal_Number (stub_projection id)
         (WktString ''MULTIPOLYGON(((0 0, 1 1)),((1 x, 0 0)))''))
   \<and> geometry_decoded decimal_Number (stub_projection id) ''POLYGON((1 2))''
         (Polygon [[\<lparr>lat = 0x4000000000000000, lng = 0x3FF0000000000000\<rparr>]])"
proof (intro conjI)
  let ?N = decimal_Number and ?P = "stub_projection id"
  have a: "''POINT(1 2)'' \<noteq> []"
    "\<not> startsWith (toUpperCase (removeSridPrefix ''POINT(1 2)'')) ''POLYGON''"
    "\<not> startsWith (toUpperCase (removeSridPrefix ''POINT(1 2)'')) ''MULTIPOLYGON''"
    by code_simp+
  with parseWkt_errors [where N = ?N and P = ?P and s = "''POINT(1 2)''"]
  show "parseWkt ?N ?P (WktString ''POINT(1 2)'')
     = Inl (Error ''Unknown or unsupported WKT geometry type'')"
    by blast
  have b: "''SRID=2180;POLYGON((1 2)'' \<noteq> []"
    "startsWith (toUpperCase (removeSridPrefix ''SRID=2180;POLYGON((1 2)'')) ''POLYGON''"
    "match_first ''POLYGON'' ''(('' ''))'' (removeSridPrefix ''SRID=2180;POLYGON((1 2)'') = None"
    by code_simp+
  with parseWkt_errors [where N = ?N and P = ?P and s = "''SRID=2180;POLYGON((1 2)''"]
  show "parseWkt ?N ?P (WktString ''SRID=2180;POLYGON((1 2)'')
     = Inl (Error ''Invalid POLYGON WKT format'')"
    by blast
  have c: "''MULTIPOLYGON((1 2))'' \<noteq> []"
    "startsWith (toUpperCase (removeSridPrefix ''MULTIPOLYGON((1 2))'')) ''MULTIPOLYGON''"
    "match_first ''MULTIPOLYGON'' ''((('' '')))'' (removeSridPrefix ''MULTIPOLYGON((1 2))'') = None"
    by code_simp+
  with parseWkt_errors [where N = ?N and P = ?P and s = "''MULTIPOLYGON((1 2))''"]
  show "parseWkt ?N ?P (WktString ''MULTIPOLYGON((1 2))'')
     = Inl (Error ''Invalid MULTIPOLYGON WKT format'')"
    by blast
  have d: "''POLYGON((0 0, 1 x, 1 1))'' \<noteq> []"
    "startsWith (toUpperCase (removeSridPrefix ''POLYGON((0 0, 1 x, 1 1))'')) ''POLYGON''"
    "match_first ''POLYGON'' ''(('' ''))'' (removeSridPrefix ''POLYGON((0 0, 1 x, 1 1))'')
       = Some ''0 0, 1 x, 1 1''"
    "has_bad_pair ?N ''0 0, 1 x, 1 1''"
    by code_simp+
  with parseWkt_errors [where N = ?N and P = ?P and s = "''POLYGON((0 0, 1 x, 1 1))''"
      and content = "''0 0, 1 x, 1 1''"]
  show "isl (parseWkt ?N ?P (WktString ''POLYGON((0 0, 1 x, 1 1))''))"
    by blast
  have e: "''MULTIPOLYGON(((0 0, 1 1)),((1 x, 0 0)))'' \<noteq> []"
    "startsWith (toUpperCase (removeSridPrefix ''MULTIPOLYGON(((0 0, 1 1)),((1 x, 0 0)))''))
       ''MULTIPOLYGON''"
    "match_first ''MULTIPOLYGON'' ''((('' '')))''
       (removeSridPrefix ''MULTIPOLYGON(((0 0, 1 1)),((1 x, 0 0)))'')
       = Some ''0 0, 1 1)),((1 x, 0 0''"
    "list_ex (has_bad_pair ?N) (split polygon_separator ''0 0, 1 1)),((1 x, 0 0'')"
    by code_simp+
  with parseWkt_errors [where N = ?N and P = ?P
      and s = "''MULTIPOLYGON(((0 0, 1 1)),((1 x, 0 0)))''"
      and content = "''0 0, 1 1)),((1 x, 0 0''"]
  show "isl (parseWkt ?N ?P (WktString ''MULTIPOLYGON(((0 0, 1 1)),((1 x, 0 0)))''))"
    by blast
  have f: "parseWkt ?N ?P (WktString ''POLYGON((1 2))'')
      = Inr (Polygon [[\<lparr>lat = 0x4000000000000000, lng = 0x3FF0000000000000\<rparr>]])"
    and r: "removeSridPrefix ''POLYGON((1 2))'' = ''POLYGON((1 2))''"
    by code_simp+
  with parseWkt_errors [where N = ?N and P = ?P and v = "WktString ''POLYGON((1 2))''"
      and g = "Polygon [[\<lparr>lat = 0x4000000000000000, lng = 0x3FF0000000000000\<rparr>]]"]
  show "geometry_decoded ?N ?P ''POLYGON((1 2))''
         (Polygon [[\<lparr>lat = 0x4000000000000000, lng = 0x3FF0000000000000\<rparr>]])"
    by auto
qed


text \<open>
  The claim as stated fails where it says that parentheses which do not match the
  expected nesting raise an error: a text with one closing parenthesis too many is
  decoded.
\<close>

theorem parseWkt_unbalanced_counterexample:
  "parseWkt decimal_Number (stub_projection id) (WktString ''POLYGON((1 2)))'')
     = Inr (Polygon [[\<lparr>lat = 0x4000000000000000, lng = 0x3FF0000000000000\<rparr>]])"
  by code_simp

lemma square_wkt_pairs:
  "removeSridPrefix square_wkt
     = ''POLYGON((500000 300000, 500100 300000, 500100 300100, 500000 300100, 500000 300000))''"
  "detectGeometryType (removeSridPrefix square_wkt) = Inr POLYGON"
  "match_first ''POLYGON'' ''(('' ''))'' (removeSridPrefix square_wkt)
     = Some ''500000 300000, 500100 300000, 500100 300100, 500000 300100, 500000 300000''"
  "split ring_separator ''500000 300000, 500100 300000, 500100 300100, 500000 300100, 500000 300000''
     = [''500000 300000, 500100 300000, 500100 300100, 500000 300100, 500000 300000'']"
  "pair_strings ''500000 300000, 500100 300000, 500100 300100, 500000 300100, 500000 300000''
     = [''500000 300000'', '' 500100 300000'', '' 500100 300100'', '' 500000 300100'',
        '' 500000 300000'']"
  "split spaces (trim ''500000 300000'') = [''500000'', ''300000'']"
  "split spaces (trim '' 500100 300000'') = [''500100'', ''300000'']"
  "split spaces (trim '' 500100 300100'') = [''500100'', ''300100'']"
  "split spaces (trim '' 500000 300100'') = [''500000'', ''300100'']"
  "split spaces (trim '' 500000 300000'') = [''500000'', ''300000'']"
  "square_wkt \<noteq> []"
  by code_simp+

text \<open>
  C9. With the stub projection (x, y) to (lat y / 100000, lng x / 100000), whatever the
  division and \<^verbatim>\<open>Number\<close> compute as long as the four numbers of the text are not NaN,
  the text of the square decodes to a Polygon with exactly one ring of 5 coordinates,
  the first equal to the last.
\<close>

theorem parseWkt_square:
  assumes "\<not> isNaN (N ''500000'')" and "\<not> isNaN (N ''300000'')"
    and "\<not> isNaN (N ''500100'')" and "\<not> isNaN (N ''300100'')"
  shows "parseWkt N (stub_projection scale) (WktString square_wkt) =
     Inr (Polygon
       [[\<lparr>lat = scale (N ''300000''), lng = scale (N ''500000'')\<rparr>,
         \<lparr>lat = scale (N ''300000''), lng = scale (N ''500100'')\<rparr>,
         \<lparr>lat = scale (N ''300100''), lng = scale (N ''500100'')\<rparr>,
         \<lparr>lat = scale (N ''300100''), lng = scale (N ''500000'')\<rparr>,
         \<lparr>lat = scale (N ''300000''), lng = scale (N ''500000'')\<rparr>]])"
proof -
  have p: "parsePair N (stub_projection scale) pair
      = Inr \<lparr>lat = scale (N y), lng = scale (N x)\<rparr>"
    if "split spaces (trim pair) = [x, y]" "\<not> isNaN (N x)" "\<not> isNaN (N y)" for pair x y
    using that
    by (simp add: parsePair_def pair_x_def pair_y_def pair_numbers_def Number_isNaN_def
        stub_projection_def ToNumber_def)
  have "parseCoordinatePairs N (stub_projection scale)
      ''500000 300000, 500100 300000, 500100 300100, 500000 300100, 500000 300000''
    = Inr [\<lparr>lat = scale (N ''300000''), lng = scale (N ''500000'')\<rparr>,
         \<lparr>lat = scale (N ''300000''), lng = scale (N ''500100'')\<rparr>,
         \<lparr>lat = scale (N ''300100''), lng = scale (N ''500100'')\<rparr>,
         \<lparr>lat = scale (N ''300100''), lng = scale (N ''500000'')\<rparr>,
         \<lparr>lat = scale (N ''300000''), lng = scale (N ''500000'')\<rparr>]"
    unfolding parseCoordinatePairs_def square_wkt_pairs(5)
    by (simp only: map_throwing.simps p [OF square_wkt_pairs(6) assms(1,2)]
        p [OF square_wkt_pairs(7) assms(3,2)] p [OF square_wkt_pairs(8) assms(3,4)]
        p [OF square_wkt_pairs(9) assms(1,4)] p [OF square_wkt_pairs(10) assms(1,2)]
        bindE_Inr)
  then show ?thesis
    by (simp add: parseWkt_def square_wkt_pairs(11) square_wkt_pairs(2) Let_def
        parsePolygon_def square_wkt_pairs(3) parseRings_def square_wkt_pairs(4))
qed

theorem parseWkt_square_witness:
  "\<not> isNaN (decimal_Number ''500000'') \<and> \<not> isNaN (decimal_Number ''300000'')
   \<and> \<not> isNaN (decimal_Number ''500100'') \<and> \<not> isNaN (decimal_Number ''300100'')
   \<and> parseWkt decimal_Number (stub_projection id) (WktString square_wkt) =
     Inr (Polygon
       [[\<lparr>lat = 0x41124F8000000000, lng = 0x411E848000000000\<rparr>,
         \<lparr>lat = 0x41124F8000000000, lng = 0x411E861000000000\<rparr>,
         \<lparr>lat = 0x4112511000000000, lng = 0x411E861000000000\<rparr>,
         \<lparr>lat = 0x4112511000000000, lng = 0x411E848000000000\<rparr>,
         \<lparr>lat = 0x41124F8000000000, lng = 0x411E848000000000\<rparr>]])"
proof -
  have n: "decimal_Number ''500000'' = 0x411E848000000000"
    "decimal_Number ''300000'' = 0x41124F8000000000"
    "decimal_Number ''500100'' = 0x411E861000000000"
    "decimal_Number ''300100'' = 0x4112511000000000"
    by code_simp+
  have h: "\<not> isNaN (decimal_Number ''500000'')" "\<not> isNaN (decimal_Number ''300000'')"
    "\<not> isNaN (decimal_Number ''500100'')" "\<not> isNaN (decimal_Number ''300100'')"
    unfolding n by (simp_all add: isNaN_def f64_magnitude_def)
  from parseWkt_square [OF h, of id] h show ?thesis
    by (simp add: n)
qed


end
